theory Spec2Isabelle
  imports Complex_Main
begin

section \<open>Numbers and vectors\<close>

text \<open>
  The detector computes with single-precision floats.  They are modelled as real
  numbers: rounding is not modelled.  The variables the detector keeps and divides
  by or adds to, \<open>IlluminanceTotal\<close>, \<open>UpdateTimer\<close> and \<open>UpdateFrequency\<close>, can also
  hold a float that is not a real number: the negative zero, an infinity, or NaN.
  \<open>Finite 0\<close> is the positive zero.  Where a quotient by zero is consumed at once, the
  case is written out in the definition that performs it.
\<close>

datatype Float = Finite real | NegativeZero | PlusInfinity | MinusInfinity | NaN

text \<open>
  The quotient of a finite float, not the negative zero, by a float.  The sign of a
  zero divisor decides the sign of the infinity.
\<close>

fun FloatDivide :: "real \<Rightarrow> Float \<Rightarrow> Float" where
  "FloatDivide a (Finite b) =
     (if b \<noteq> 0 then (if a = 0 \<and> b < 0 then NegativeZero else Finite (a / b))
      else if 0 < a then PlusInfinity
      else if a < 0 then MinusInfinity
      else NaN)"
| "FloatDivide a NegativeZero =
     (if 0 < a then MinusInfinity else if a < 0 then PlusInfinity else NaN)"
| "FloatDivide a PlusInfinity = (if a < 0 then NegativeZero else Finite 0)"
| "FloatDivide a MinusInfinity = (if a < 0 then Finite 0 else NegativeZero)"
| "FloatDivide a NaN = NaN"

fun FloatAdd :: "Float \<Rightarrow> Float \<Rightarrow> Float" where
  "FloatAdd (Finite a) (Finite b) = Finite (a + b)"
| "FloatAdd NegativeZero NegativeZero = NegativeZero"
| "FloatAdd NegativeZero (Finite b) = Finite b"
| "FloatAdd (Finite a) NegativeZero = Finite a"
| "FloatAdd NaN b = NaN"
| "FloatAdd a NaN = NaN"
| "FloatAdd PlusInfinity MinusInfinity = NaN"
| "FloatAdd MinusInfinity PlusInfinity = NaN"
| "FloatAdd PlusInfinity b = PlusInfinity"
| "FloatAdd a PlusInfinity = PlusInfinity"
| "FloatAdd MinusInfinity b = MinusInfinity"
| "FloatAdd a MinusInfinity = MinusInfinity"

text \<open>The comparison \<open>f <= 0\<close>, false on NaN.\<close>

fun FloatLeZero :: "Float \<Rightarrow> bool" where
  "FloatLeZero (Finite a) = (a \<le> 0)"
| "FloatLeZero NegativeZero = True"
| "FloatLeZero MinusInfinity = True"
| "FloatLeZero PlusInfinity = False"
| "FloatLeZero NaN = False"

text \<open>
  Modelled from the spec: the vector and plane types of the engine and their
  operations (sum, difference, scaling, dot and cross product, squared distance,
  normalisation, the clamped arc cosine, rotation about an axis, plane flip and the
  signed distance of a point to a plane).  The source calls them and does not define
  them; they are the geometry kernel, written out in real arithmetic.
\<close>

datatype FVector = FVector (X: real) (Y: real) (Z: real)

instantiation FVector :: "{zero, plus, minus, uminus}"
begin

definition zero_FVector_def: "0 = FVector 0 0 0"

definition plus_FVector_def: "a + b = FVector (X a + X b) (Y a + Y b) (Z a + Z b)"

definition minus_FVector_def: "a - b = FVector (X a - X b) (Y a - Y b) (Z a - Z b)"

definition uminus_FVector_def: "- a = FVector (- X a) (- Y a) (- Z a)"

instance ..

end

text \<open>The product of a vector and a scalar (\<open>V * s\<close> and \<open>s * V\<close> of the source).\<close>

definition Scaled :: "FVector \<Rightarrow> real \<Rightarrow> FVector" where
  "Scaled v s = FVector (X v * s) (Y v * s) (Z v * s)"

definition UpVector :: FVector where
  "UpVector = FVector 0 0 1"

definition DownVector :: FVector where
  "DownVector = FVector 0 0 (- 1)"

definition DotProduct :: "FVector \<Rightarrow> FVector \<Rightarrow> real" where
  "DotProduct a b = X a * X b + Y a * Y b + Z a * Z b"

definition CrossProduct :: "FVector \<Rightarrow> FVector \<Rightarrow> FVector" where
  "CrossProduct a b =
     FVector (Y a * Z b - Z a * Y b) (Z a * X b - X a * Z b) (X a * Y b - Y a * X b)"

definition SizeSquared :: "FVector \<Rightarrow> real" where
  "SizeSquared v = X v * X v + Y v * Y v + Z v * Z v"

definition Size :: "FVector \<Rightarrow> real" where
  "Size v = sqrt (SizeSquared v)"

definition DistSquared :: "FVector \<Rightarrow> FVector \<Rightarrow> real" where
  "DistSquared a b = SizeSquared (b - a)"

definition Distance :: "FVector \<Rightarrow> FVector \<Rightarrow> real" where
  "Distance a b = sqrt (DistSquared a b)"

text \<open>The engine's tolerance below which a vector is too short to be normalised.\<close>

definition SMALL_NUMBER :: real where
  "SMALL_NUMBER = 1 / 100000000"

text \<open>
  \<open>GetSafeNormal\<close>: a unit-length copy of the vector, or the zero vector when the
  vector is too short to be normalised.
\<close>

definition GetSafeNormal :: "FVector \<Rightarrow> FVector" where
  "GetSafeNormal v =
     (let SquareSum = SizeSquared v in
      if SquareSum = 1 then v
      else if SquareSum < SMALL_NUMBER then 0
      else Scaled v (1 / sqrt SquareSum))"

text \<open>
  \<open>Normalize\<close> works in place and leaves a vector that is too short unchanged.
\<close>

definition Normalize :: "FVector \<Rightarrow> FVector" where
  "Normalize v =
     (let SquareSum = SizeSquared v in
      if SquareSum > SMALL_NUMBER then Scaled v (1 / sqrt SquareSum) else v)"

text \<open>
  \<open>FMath::Acos\<close> clamps its argument into the domain of the arc cosine, with
  comparisons: an argument that is below neither bound is taken as 1.
\<close>

definition Acos :: "real \<Rightarrow> real" where
  "Acos v = arccos (if v < - 1 then - 1 else if v < 1 then v else 1)"

text \<open>
  \<open>RotateAngleAxis\<close>: the vector rotated by an angle in degrees about a unit axis.
\<close>

definition RotateAngleAxis :: "FVector \<Rightarrow> real \<Rightarrow> FVector \<Rightarrow> FVector" where
  "RotateAngleAxis v AngleDeg Axis =
     (let S = sin (AngleDeg * (pi / 180));
          C = cos (AngleDeg * (pi / 180));
          XX = X Axis * X Axis; YY = Y Axis * Y Axis; ZZ = Z Axis * Z Axis;
          XY = X Axis * Y Axis; YZ = Y Axis * Z Axis; ZX = Z Axis * X Axis;
          XS = X Axis * S; YS = Y Axis * S; ZS = Z Axis * S;
          OMC = 1 - C
      in FVector
           ((OMC * XX + C) * X v + (OMC * XY - ZS) * Y v + (OMC * ZX + YS) * Z v)
           ((OMC * XY + ZS) * X v + (OMC * YY + C) * Y v + (OMC * YZ - XS) * Z v)
           ((OMC * ZX - YS) * X v + (OMC * YZ + XS) * Y v + (OMC * ZZ + C) * Z v))"

text \<open>A plane: its normal and its offset \<open>W\<close>.\<close>

datatype FPlane = FPlane (GetNormal: FVector) (W: real)

definition Flip :: "FPlane \<Rightarrow> FPlane" where
  "Flip p = FPlane (- GetNormal p) (- W p)"

definition PointPlaneDist :: "FVector \<Rightarrow> FVector \<Rightarrow> FVector \<Rightarrow> real" where
  "PointPlaneDist Point PlaneBase PlaneNormal = DotProduct (Point - PlaneBase) PlaneNormal"

text \<open>
  \<open>PlaneDot\<close>: the signed distance of a point to a plane whose normal has unit
  length.  The source does not call it; the distances it computes are compared with
  it below.
\<close>

definition PlaneDot :: "FPlane \<Rightarrow> FVector \<Rightarrow> real" where
  "PlaneDot p Point = DotProduct (GetNormal p) Point - W p"

section \<open>The host: lights, ray casts, the player\<close>

text \<open>
  Modelled from the spec: the light components of the engine, with the attributes
  the source reads.  They follow the engine's class hierarchy: every light has a
  visibility flag, an intensity, a position and an orientation; local lights add an
  attenuation radius; a point light is a local light; spot and rect lights extend it.
  Angles are in degrees, as the source converts them.
\<close>

record ULightComponent =
  IsVisible :: bool
  Intensity :: real
  GetLightPosition :: FVector
  GetForwardVector :: FVector
  GetRightVector :: FVector
  GetUpVector :: FVector

record ULocalLightComponent = ULightComponent +
  AttenuationRadius :: real

type_synonym UPointLightComponent = ULocalLightComponent

record USpotLightComponent = ULocalLightComponent +
  OuterConeAngle :: real

record URectLightComponent = ULocalLightComponent +
  SourceWidth :: real
  SourceHeight :: real
  BarnDoorAngle :: real
  BarnDoorLength :: real

type_synonym UDirectionalLightComponent = ULightComponent

datatype ECollisionChannel = ECC_Visibility | ECC_GameTraceChannel5

text \<open>
  \<open>LineTraceSingleByChannel\<close> of the host, from a start to an end point on a channel:
  \<open>None\<close> when nothing blocks the segment (the source's \<open>false\<close>), otherwise the
  location of the blocking hit.
\<close>

type_synonym UWorld = "FVector \<Rightarrow> FVector \<Rightarrow> ECollisionChannel \<Rightarrow> FVector option"

section \<open>The point-light evaluator\<close>

text \<open>
  What one iteration of an evaluator's loop does: leave the function, go on with the
  next light, store a value in \<open>IlluminanceTotal\<close>, or add a value to it.
\<close>

datatype Effect = Return | Continue | Assign Float | Accumulate Float

text \<open>The body of the loop of \<open>CheckPointLights\<close> for one light.\<close>

definition PointLightStep :: "real \<Rightarrow> FVector \<Rightarrow> UPointLightComponent \<Rightarrow> Effect" where
  "PointLightStep ForgivenessBuffer PlayerPosition l =
     (if \<not> IsVisible l \<or> Intensity l \<le> 0 then Return
      else
        let LightPosition = GetLightPosition l;
            LightDistanceSqr = DistSquared LightPosition PlayerPosition
        in if LightDistanceSqr > AttenuationRadius l * AttenuationRadius l + ForgivenessBuffer
           then Continue
           else Assign (Finite 1))"

text \<open>
  The loop of \<open>CheckPointLights\<close> over the catalog, in catalog order, on the running
  value of \<open>IlluminanceTotal\<close>.
\<close>

fun CheckPointLights_loop ::
  "real \<Rightarrow> FVector \<Rightarrow> UPointLightComponent list \<Rightarrow> Float \<Rightarrow> Float" where
  "CheckPointLights_loop fb P [] illum = illum"
| "CheckPointLights_loop fb P (l # ls) illum =
     (case PointLightStep fb P l of
        Return \<Rightarrow> illum
      | Continue \<Rightarrow> CheckPointLights_loop fb P ls illum
      | Assign v \<Rightarrow> CheckPointLights_loop fb P ls v
      | Accumulate v \<Rightarrow> CheckPointLights_loop fb P ls (FloatAdd illum v))"

text \<open>
  How many times the loop of \<open>CheckPointLights\<close> reaches its inclusion block: the
  number of point lights an evaluation includes.
\<close>

fun IncludedPointLights :: "real \<Rightarrow> FVector \<Rightarrow> UPointLightComponent list \<Rightarrow> nat" where
  "IncludedPointLights fb P [] = 0"
| "IncludedPointLights fb P (l # ls) =
     (case PointLightStep fb P l of
        Return \<Rightarrow> 0
      | Continue \<Rightarrow> IncludedPointLights fb P ls
      | _ \<Rightarrow> Suc (IncludedPointLights fb P ls))"

section \<open>The spot-light evaluator\<close>

text \<open>
  The range test of \<open>CheckSpotLights\<close>: whether the squared distance exceeds the
  squared cone height plus the buffer.  Two float cases have no real value.  With a
  displacement of length zero the quotient is 0/0, which the comparisons of \<open>Acos\<close>
  send to the upper clamp, so the angle is \<open>Acos 1\<close>.  With a cosine of zero the cone
  height is a quotient by zero, infinite or undefined, and the comparison is false.
\<close>

definition BeyondConeHeight :: "real \<Rightarrow> FVector \<Rightarrow> USpotLightComponent \<Rightarrow> bool" where
  "BeyondConeHeight ForgivenessBuffer PlayerPosition l =
     (let SpotLightPosition = GetLightPosition l;
          SpotLightDir = GetForwardVector l;
          PlayerDisplacement = PlayerPosition - SpotLightPosition;
          LightDistanceSqr = DistSquared SpotLightPosition PlayerPosition;
          AngleBetween =
            (if Size PlayerDisplacement = 0 then Acos 1
             else Acos (DotProduct PlayerDisplacement SpotLightDir / Size PlayerDisplacement))
      in if cos AngleBetween = 0 then False
         else
           let ConeHeight =
                 AttenuationRadius l * (cos (OuterConeAngle l * (pi / 180)) / cos AngleBetween)
           in LightDistanceSqr > ConeHeight * ConeHeight + ForgivenessBuffer)"

text \<open>The body of the loop of \<open>CheckSpotLights\<close> for one light.\<close>

definition SpotLightStep :: "UWorld \<Rightarrow> real \<Rightarrow> FVector \<Rightarrow> USpotLightComponent \<Rightarrow> Effect" where
  "SpotLightStep LineTraceSingleByChannel ForgivenessBuffer PlayerPosition l =
     (if \<not> IsVisible l then Continue
      else
        let SpotLightPosition = GetLightPosition l;
            SpotLightDir = GetForwardVector l;
            PlayerDisplacement = PlayerPosition - SpotLightPosition
        in if BeyondConeHeight ForgivenessBuffer PlayerPosition l then Continue
           else
             let SpotLightToPlayerAngle =
                   Acos (DotProduct SpotLightDir (GetSafeNormal PlayerDisplacement)) * (180 / pi)
             in if SpotLightToPlayerAngle > OuterConeAngle l then Continue
                else
                  (case LineTraceSingleByChannel SpotLightPosition PlayerPosition
                          ECC_GameTraceChannel5 of
                     None \<Rightarrow> if Intensity l \<le> 0 then Continue else Assign (Finite 1)
                   | Some hit \<Rightarrow> Continue))"

fun CheckSpotLights_loop ::
  "UWorld \<Rightarrow> real \<Rightarrow> FVector \<Rightarrow> USpotLightComponent list \<Rightarrow> Float \<Rightarrow> Float" where
  "CheckSpotLights_loop w fb P [] illum = illum"
| "CheckSpotLights_loop w fb P (l # ls) illum =
     (case SpotLightStep w fb P l of
        Return \<Rightarrow> illum
      | Continue \<Rightarrow> CheckSpotLights_loop w fb P ls illum
      | Assign v \<Rightarrow> CheckSpotLights_loop w fb P ls v
      | Accumulate v \<Rightarrow> CheckSpotLights_loop w fb P ls (FloatAdd illum v))"

text \<open>
  How many times the loop of \<open>CheckSpotLights\<close> reaches its inclusion block: the
  number of spot lights an evaluation includes.
\<close>

fun IncludedSpotLights :: "UWorld \<Rightarrow> real \<Rightarrow> FVector \<Rightarrow> USpotLightComponent list \<Rightarrow> nat" where
  "IncludedSpotLights w fb P [] = 0"
| "IncludedSpotLights w fb P (l # ls) =
     (case SpotLightStep w fb P l of
        Return \<Rightarrow> 0
      | Continue \<Rightarrow> IncludedSpotLights w fb P ls
      | _ \<Rightarrow> Suc (IncludedSpotLights w fb P ls))"

section \<open>The rect-light evaluator\<close>

record RectLightWrapper =
  RectLight :: URectLightComponent
  FrustumPoints :: "FVector list"
  BoundingPlanes :: "FPlane list"

text \<open>The wrapper's constructor: eight frustum points and four bounding planes.\<close>

definition NewRectLightWrapper :: "URectLightComponent \<Rightarrow> RectLightWrapper" where
  "NewRectLightWrapper rectLight =
     \<lparr>RectLight = rectLight,
      FrustumPoints = replicate 8 (FVector 0 0 0),
      BoundingPlanes = replicate 4 (FPlane (FVector 0 0 0) 0)\<rparr>"

definition CalculateFrustumPoints :: "RectLightWrapper \<Rightarrow> RectLightWrapper" where
  "CalculateFrustumPoints rectLightWrapper =
     (let L = RectLight rectLightWrapper;
          fp = FrustumPoints rectLightWrapper;
          fp = fp[0 := GetLightPosition L - Scaled (GetRightVector L) (SourceWidth L / 2)
                          + Scaled (GetUpVector L) (SourceHeight L / 2)];
          fp = fp[1 := GetLightPosition L + Scaled (GetRightVector L) (SourceWidth L / 2)
                          + Scaled (GetUpVector L) (SourceHeight L / 2)];
          fp = fp[2 := GetLightPosition L + Scaled (GetRightVector L) (SourceWidth L / 2)
                          - Scaled (GetUpVector L) (SourceHeight L / 2)];
          fp = fp[3 := GetLightPosition L - Scaled (GetRightVector L) (SourceWidth L / 2)
                          - Scaled (GetUpVector L) (SourceHeight L / 2)];
          farPlaneSegment =
            fp ! 0 + RotateAngleAxis (Scaled (GetForwardVector L) (BarnDoorLength L))
                       (- BarnDoorAngle L) (GetRightVector L);
          farPlaneSegmentLength = BarnDoorLength L * sin (BarnDoorAngle L * (pi / 180));
          fp = fp[4 := farPlaneSegment - Scaled (GetRightVector L) farPlaneSegmentLength];
          fp = fp[5 := fp ! 4
                          + Scaled (GetRightVector L) (2 * farPlaneSegmentLength + SourceWidth L)];
          fp = fp[6 := fp ! 5
                          - Scaled (GetUpVector L) (2 * farPlaneSegmentLength + SourceHeight L)];
          fp = fp[7 := fp ! 6
                          - Scaled (GetRightVector L) (2 * farPlaneSegmentLength + SourceWidth L)]
      in rectLightWrapper\<lparr>FrustumPoints := fp\<rparr>)"

definition CalculateBoundingPlanes :: "RectLightWrapper \<Rightarrow> RectLightWrapper" where
  "CalculateBoundingPlanes rectLightWrapper =
     (let fp = FrustumPoints rectLightWrapper;
          bp = BoundingPlanes rectLightWrapper;
          topPlaneNormal = Normalize (CrossProduct (fp ! 3 - fp ! 2) (fp ! 4 - fp ! 2));
          bp = bp[0 := Flip (FPlane topPlaneNormal (DotProduct topPlaneNormal (fp ! 2)))];
          rightPlaneNormal = Normalize (CrossProduct (fp ! 0 - fp ! 3) (fp ! 5 - fp ! 3));
          bp = bp[1 := Flip (FPlane rightPlaneNormal (DotProduct rightPlaneNormal (fp ! 0)))];
          bottomPlaneNormal = Normalize (CrossProduct (fp ! 7 - fp ! 1) (fp ! 0 - fp ! 1));
          bp = bp[2 := Flip (FPlane bottomPlaneNormal (DotProduct bottomPlaneNormal (fp ! 0)))];
          leftPlaneNormal = Normalize (CrossProduct (fp ! 4 - fp ! 2) (fp ! 1 - fp ! 2));
          bp = bp[3 := Flip (FPlane leftPlaneNormal (DotProduct leftPlaneNormal (fp ! 1)))]
      in rectLightWrapper\<lparr>BoundingPlanes := bp\<rparr>)"

text \<open>The four signed distances \<open>CheckRectLights\<close> computes from a wrapper's frustum.\<close>

definition TopPlaneDist :: "FVector \<Rightarrow> RectLightWrapper \<Rightarrow> real" where
  "TopPlaneDist PlayerPosition rw =
     PointPlaneDist PlayerPosition (FrustumPoints rw ! 3) (GetNormal (BoundingPlanes rw ! 0))"

definition RightPlaneDist :: "FVector \<Rightarrow> RectLightWrapper \<Rightarrow> real" where
  "RightPlaneDist PlayerPosition rw =
     PointPlaneDist PlayerPosition (FrustumPoints rw ! 0) (GetNormal (BoundingPlanes rw ! 1))"

definition BottomPlaneDist :: "FVector \<Rightarrow> RectLightWrapper \<Rightarrow> real" where
  "BottomPlaneDist PlayerPosition rw =
     PointPlaneDist PlayerPosition (FrustumPoints rw ! 0) (GetNormal (BoundingPlanes rw ! 2))"

definition LeftPlaneDist :: "FVector \<Rightarrow> RectLightWrapper \<Rightarrow> real" where
  "LeftPlaneDist PlayerPosition rw =
     PointPlaneDist PlayerPosition (FrustumPoints rw ! 1) (GetNormal (BoundingPlanes rw ! 3))"

text \<open>
  What stops an evaluation.  The subject handle is a pointer that is dereferenced
  unchecked; an array is indexed beyond its end; the detection point is read where
  no branch has assigned it.
\<close>

datatype Fault = NullPlayerDereference | ArrayIndexOutOfBounds | UninitializedDetectionPoint

text \<open>
  The body of the loop of \<open>CheckRectLights\<close> for one wrapper: the effect on the
  total, and the wrapper with its frustum recomputed.  The debug drawing is not
  modelled.
\<close>

definition RectLightStep ::
  "UWorld \<Rightarrow> real \<Rightarrow> FVector \<Rightarrow> RectLightWrapper \<Rightarrow> Fault + Effect \<times> RectLightWrapper" where
  "RectLightStep LineTraceSingleByChannel ForgivenessBuffer PlayerPosition rw =
     (if \<not> IsVisible (RectLight rw) then Inr (Return, rw)
      else
        let LightPosition = GetLightPosition (RectLight rw);
            LightDistanceSqr = DistSquared LightPosition PlayerPosition
        in if LightDistanceSqr >
                AttenuationRadius (RectLight rw) * AttenuationRadius (RectLight rw)
                  + ForgivenessBuffer
           then Inr (Continue, rw)
           else
             (case LineTraceSingleByChannel LightPosition PlayerPosition ECC_GameTraceChannel5 of
                Some hit \<Rightarrow> Inr (Continue, rw)
              | None \<Rightarrow>
                  if length (FrustumPoints rw) < 8 \<or> length (BoundingPlanes rw) < 4
                  then Inl ArrayIndexOutOfBounds
                  else
                    let rw' = CalculateBoundingPlanes (CalculateFrustumPoints rw)
                    in if TopPlaneDist PlayerPosition rw' > 0
                          \<and> RightPlaneDist PlayerPosition rw' > 0
                          \<and> BottomPlaneDist PlayerPosition rw' > 0
                          \<and> LeftPlaneDist PlayerPosition rw' > 0
                       then
                         let LightDistance = sqrt LightDistanceSqr * (1 / 100)
                         in Inr (Accumulate
                                   (FloatDivide (Intensity (RectLight rw))
                                      (Finite (2 * pi * LightDistance))),
                                 rw')
                       else Inr (Continue, rw')))"

text \<open>Whether an iteration reaches the statement that changes the total.\<close>

fun Included :: "Fault + Effect \<times> 'a \<Rightarrow> bool" where
  "Included (Inr (Assign v, x)) = True"
| "Included (Inr (Accumulate v, x)) = True"
| "Included r = False"

fun CheckRectLights_loop ::
  "UWorld \<Rightarrow> real \<Rightarrow> FVector \<Rightarrow> RectLightWrapper list \<Rightarrow> Float
     \<Rightarrow> Fault + RectLightWrapper list \<times> Float" where
  "CheckRectLights_loop w fb P [] illum = Inr ([], illum)"
| "CheckRectLights_loop w fb P (rw # rws) illum =
     (case RectLightStep w fb P rw of
        Inl f \<Rightarrow> Inl f
      | Inr (Return, rw') \<Rightarrow> Inr (rw' # rws, illum)
      | Inr (eff, rw') \<Rightarrow>
          (case CheckRectLights_loop w fb P rws
                  (case eff of Assign v \<Rightarrow> v | Accumulate v \<Rightarrow> FloatAdd illum v | _ \<Rightarrow> illum) of
             Inl f \<Rightarrow> Inl f
           | Inr (rws', illum') \<Rightarrow> Inr (rw' # rws', illum')))"

section \<open>The detection manager\<close>

text \<open>
  The manager's fields.  \<open>Player\<close> is the subject handle: \<open>None\<close> is the null pointer,
  \<open>Some p\<close> a character whose \<open>GetActorLocation\<close> is \<open>p\<close>.  The lights are the
  components the catalog points to, as they are at the evaluation.  The debug flags
  only draw and print, and are left out.  \<open>Evaluations\<close> is not a field of the source:
  it counts the calls of \<open>UpdateDetection\<close>.
\<close>

record ALightDetectionManager =
  Player :: "FVector option"
  PointLights :: "UPointLightComponent list"
  SpotLights :: "USpotLightComponent list"
  RectLights :: "RectLightWrapper list"
  MainDirectionalLight :: "UDirectionalLightComponent option"
  IlluminanceTotal :: Float
  UpdateFrequency :: Float
  UpdateTimer :: Float
  ForgivenessBuffer :: real
  Evaluations :: nat

definition CheckPointLights :: "FVector \<Rightarrow> ALightDetectionManager \<Rightarrow> ALightDetectionManager" where
  "CheckPointLights PlayerPosition m =
     m\<lparr>IlluminanceTotal :=
         CheckPointLights_loop (ForgivenessBuffer m) PlayerPosition (PointLights m)
           (IlluminanceTotal m)\<rparr>"

definition CheckSpotLights ::
  "UWorld \<Rightarrow> FVector \<Rightarrow> ALightDetectionManager \<Rightarrow> ALightDetectionManager" where
  "CheckSpotLights w PlayerPosition m =
     m\<lparr>IlluminanceTotal :=
         CheckSpotLights_loop w (ForgivenessBuffer m) PlayerPosition (SpotLights m)
           (IlluminanceTotal m)\<rparr>"

definition CheckRectLights :: "UWorld \<Rightarrow> ALightDetectionManager \<Rightarrow> Fault + ALightDetectionManager" where
  "CheckRectLights w m =
     (case Player m of
        None \<Rightarrow> Inl NullPlayerDereference
      | Some PlayerPosition \<Rightarrow>
          (case CheckRectLights_loop w (ForgivenessBuffer m) PlayerPosition (RectLights m)
                  (IlluminanceTotal m) of
             Inl f \<Rightarrow> Inl f
           | Inr (rws, illum) \<Rightarrow> Inr (m\<lparr>RectLights := rws, IlluminanceTotal := illum\<rparr>)))"

definition CheckDirectionalLight ::
  "UWorld \<Rightarrow> ALightDetectionManager \<Rightarrow> Fault + ALightDetectionManager" where
  "CheckDirectionalLight LineTraceSingleByChannel m =
     (case MainDirectionalLight m of
        None \<Rightarrow> Inr m
      | Some l \<Rightarrow>
          if \<not> IsVisible l then Inr m
          else
            (case Player m of
               None \<Rightarrow> Inl NullPlayerDereference
             | Some PlayerPosition \<Rightarrow>
                 let LightDirection = GetForwardVector l;
                     DirecitonalLightPosition = PlayerPosition - Scaled LightDirection 5000
                 in (case LineTraceSingleByChannel DirecitonalLightPosition PlayerPosition
                            ECC_Visibility of
                       None \<Rightarrow>
                         Inr (m\<lparr>IlluminanceTotal :=
                                 FloatAdd (IlluminanceTotal m) (Finite (Intensity l))\<rparr>)
                     | Some hit \<Rightarrow> Inr m)))"

text \<open>
  The detection point \<open>UpdateDetection\<close> chooses: \<open>None\<close> where the floor is hit but
  not within standing range, the case in which no branch assigns the variable.
\<close>

definition DetectionPoint :: "UWorld \<Rightarrow> FVector \<Rightarrow> FVector option" where
  "DetectionPoint LineTraceSingleByChannel PlayerPosition =
     (case LineTraceSingleByChannel PlayerPosition (PlayerPosition + Scaled DownVector 100)
             ECC_GameTraceChannel5 of
        Some HitLocation \<Rightarrow>
          if Distance HitLocation PlayerPosition < 98
          then Some (HitLocation + Scaled UpVector 10)
          else None
      | None \<Rightarrow> Some (PlayerPosition + Scaled DownVector (93980003 / 1000000)))"

definition UpdateDetection :: "UWorld \<Rightarrow> ALightDetectionManager \<Rightarrow> Fault + ALightDetectionManager" where
  "UpdateDetection w m0 =
     (let m = m0\<lparr>IlluminanceTotal := Finite 0, Evaluations := Suc (Evaluations m0)\<rparr>
      in case Player m of
           None \<Rightarrow> Inl NullPlayerDereference
         | Some PlayerPosition \<Rightarrow>
             (case DetectionPoint w PlayerPosition of
                None \<Rightarrow> Inl UninitializedDetectionPoint
              | Some P \<Rightarrow> Inr (CheckSpotLights w P (CheckPointLights P m))))"

definition Tick :: "UWorld \<Rightarrow> real \<Rightarrow> ALightDetectionManager \<Rightarrow> Fault + ALightDetectionManager" where
  "Tick w DeltaTime m0 =
     (let m = m0\<lparr>UpdateTimer := FloatAdd (UpdateTimer m0) (Finite (- DeltaTime))\<rparr>
      in if FloatLeZero (UpdateTimer m)
         then
           (case UpdateDetection w m of
              Inl f \<Rightarrow> Inl f
            | Inr m' \<Rightarrow> Inr (m'\<lparr>UpdateTimer := FloatDivide 1 (UpdateFrequency m')\<rparr>))
         else Inr m)"

subsection \<open>Initialisation\<close>

text \<open>
  A scene actor: its tags and its components.  A spot light component is also a
  point light component, so a search for a point light component finds either.
\<close>

datatype UActorComponent =
  PointLightComponent UPointLightComponent
| SpotLightComponent USpotLightComponent
| OtherComponent

record AActor =
  Tags :: "string list"
  Components :: "UActorComponent list"

fun FindPointLightComponent :: "UActorComponent list \<Rightarrow> UPointLightComponent option" where
  "FindPointLightComponent [] = None"
| "FindPointLightComponent (PointLightComponent c # cs) = Some c"
| "FindPointLightComponent (SpotLightComponent c # cs) = Some (ULocalLightComponent.truncate c)"
| "FindPointLightComponent (OtherComponent # cs) = FindPointLightComponent cs"

fun FindSpotLightComponent :: "UActorComponent list \<Rightarrow> USpotLightComponent option" where
  "FindSpotLightComponent [] = None"
| "FindSpotLightComponent (SpotLightComponent c # cs) = Some c"
| "FindSpotLightComponent (c # cs) = FindSpotLightComponent cs"

fun BeginPlay_loop :: "AActor list \<Rightarrow> ALightDetectionManager \<Rightarrow> ALightDetectionManager" where
  "BeginPlay_loop [] m = m"
| "BeginPlay_loop (Actor # rest) m =
     (if ''Point Light'' \<in> set (Tags Actor) then
        (case FindPointLightComponent (Components Actor) of
           Some c \<Rightarrow> BeginPlay_loop rest (m\<lparr>PointLights := PointLights m @ [c]\<rparr>)
         | None \<Rightarrow> BeginPlay_loop rest m)
      else if ''Spot Light'' \<in> set (Tags Actor) then
        (case FindSpotLightComponent (Components Actor) of
           Some c \<Rightarrow> BeginPlay_loop rest (m\<lparr>SpotLights := SpotLights m @ [c]\<rparr>)
         | None \<Rightarrow> BeginPlay_loop rest m)
      else BeginPlay_loop rest m)"

text \<open>
  \<open>BeginPlay\<close>, given the player character the host returns (\<open>None\<close> when the cast
  fails) and the actors of the scene.
\<close>

definition BeginPlay ::
  "FVector option \<Rightarrow> AActor list \<Rightarrow> ALightDetectionManager \<Rightarrow> ALightDetectionManager" where
  "BeginPlay PlayerCharacter Actors m0 =
     (let m = BeginPlay_loop Actors (m0\<lparr>Player := PlayerCharacter\<rparr>)
      in m\<lparr>UpdateTimer := FloatDivide 1 (UpdateFrequency m)\<rparr>)"

section \<open>Example scenes\<close>

text \<open>A world in which no ray is blocked, and one in which every ray hits a given point.\<close>

definition OpenWorld :: UWorld where
  "OpenWorld = (\<lambda>Start End Channel. None)"

definition BlockedWorld :: "FVector \<Rightarrow> UWorld" where
  "BlockedWorld HitLocation = (\<lambda>Start End Channel. Some HitLocation)"

text \<open>
  A world whose only obstacle is a point on the vertical axis, 4950 units up: it
  blocks the vertical segments of that axis that pass through it.
\<close>

definition ObstacleWorld :: UWorld where
  "ObstacleWorld =
     (\<lambda>Start End Channel.
        if X Start = 0 \<and> Y Start = 0 \<and> X End = 0 \<and> Y End = 0
           \<and> min (Z Start) (Z End) \<le> 4950 \<and> 4950 \<le> max (Z Start) (Z End)
        then Some (FVector 0 0 4950) else None)"

definition ExamplePointLight :: UPointLightComponent where
  "ExamplePointLight =
     \<lparr>IsVisible = True, Intensity = 10, GetLightPosition = FVector 0 0 100,
      GetForwardVector = FVector 1 0 0, GetRightVector = FVector 0 1 0,
      GetUpVector = FVector 0 0 1, AttenuationRadius = 500\<rparr>"

definition ExampleSpotLight :: USpotLightComponent where
  "ExampleSpotLight =
     \<lparr>IsVisible = True, Intensity = 10, GetLightPosition = FVector 0 0 200,
      GetForwardVector = FVector 0 0 (- 1), GetRightVector = FVector 0 1 0,
      GetUpVector = FVector 1 0 0, AttenuationRadius = 500, OuterConeAngle = 30\<rparr>"

definition ExampleRectLight :: URectLightComponent where
  "ExampleRectLight =
     \<lparr>IsVisible = True, Intensity = 100, GetLightPosition = FVector 0 0 0,
      GetForwardVector = FVector 1 0 0, GetRightVector = FVector 0 1 0,
      GetUpVector = FVector 0 0 1, AttenuationRadius = 500,
      SourceWidth = 7, SourceHeight = 7, BarnDoorAngle = arcsin (3 / 5) * 180 / pi,
      BarnDoorLength = 15\<rparr>"

definition ExampleDirectionalLight :: UDirectionalLightComponent where
  "ExampleDirectionalLight =
     \<lparr>IsVisible = True, Intensity = 3, GetLightPosition = FVector 0 0 0,
      GetForwardVector = FVector 0 0 (- 1), GetRightVector = FVector 0 1 0,
      GetUpVector = FVector 1 0 0\<rparr>"

text \<open>
  A manager with the header's default update frequency, a player at the origin and
  an empty catalog.
\<close>

definition ExampleManager :: ALightDetectionManager where
  "ExampleManager =
     \<lparr>Player = Some (FVector 0 0 0), PointLights = [], SpotLights = [], RectLights = [],
      MainDirectionalLight = None, IlluminanceTotal = Finite 0, UpdateFrequency = Finite 50,
      UpdateTimer = Finite 0, ForgivenessBuffer = 0, Evaluations = 0\<rparr>"

section \<open>Auxiliary facts\<close>

lemmas vec_defs = DistSquared_def SizeSquared_def minus_FVector_def plus_FVector_def Scaled_def
  DotProduct_def Distance_def Size_def zero_FVector_def uminus_FVector_def

text \<open>
  The only effect a point or a spot light has on the total is to store 1 in it.  So
  a pass that includes no light returns the total it was given, and a pass that
  includes one light or more returns 1.
\<close>

lemma PointLightStep_cases:
  "PointLightStep fb P l = Return \<or> PointLightStep fb P l = Continue
   \<or> PointLightStep fb P l = Assign (Finite 1)"
  by (simp add: PointLightStep_def Let_def)

lemma SpotLightStep_cases:
  "SpotLightStep w fb P l = Continue \<or> SpotLightStep w fb P l = Assign (Finite 1)"
  by (simp add: SpotLightStep_def Let_def split: option.splits)

lemma point_loop_counted:
  "CheckPointLights_loop fb P ls illum
     = (if IncludedPointLights fb P ls = 0 then illum else Finite 1)"
proof (induction ls arbitrary: illum)
  case Nil
  show ?case by simp
next
  case (Cons l ls)
  from PointLightStep_cases [of fb P l] Cons.IH [of illum] Cons.IH [of "Finite 1"]
  show ?case by auto
qed

lemma spot_loop_counted:
  "CheckSpotLights_loop w fb P ls illum
     = (if IncludedSpotLights w fb P ls = 0 then illum else Finite 1)"
proof (induction ls arbitrary: illum)
  case Nil
  show ?case by simp
next
  case (Cons l ls)
  from SpotLightStep_cases [of w fb P l] Cons.IH [of illum] Cons.IH [of "Finite 1"]
  show ?case by auto
qed

text \<open>
  When a point light and when a spot light is included.
\<close>

lemma PointLightStep_included:
  "PointLightStep fb P l = Assign (Finite 1) \<longleftrightarrow>
     IsVisible l \<and> 0 < Intensity l
     \<and> DistSquared (GetLightPosition l) P \<le> AttenuationRadius l * AttenuationRadius l + fb"
  by (auto simp add: PointLightStep_def Let_def)

lemma SpotLightStep_included:
  "SpotLightStep w fb P l = Assign (Finite 1) \<longleftrightarrow>
     IsVisible l \<and> \<not> BeyondConeHeight fb P l
     \<and> Acos (DotProduct (GetForwardVector l) (GetSafeNormal (P - GetLightPosition l)))
           * (180 / pi) \<le> OuterConeAngle l
     \<and> w (GetLightPosition l) P ECC_GameTraceChannel5 = None
     \<and> 0 < Intensity l"
  by (auto simp add: SpotLightStep_def Let_def split: option.splits)

lemma passes_binary:
  "CheckSpotLights_loop w fb S spots (CheckPointLights_loop fb S points (Finite 0))
     = (if IncludedPointLights fb S points = 0 \<and> IncludedSpotLights w fb S spots = 0
        then Finite 0 else Finite 1)"
  by (simp add: point_loop_counted spot_loop_counted)

text \<open>
  An evaluation completes exactly when it reads a player and a detection point.
\<close>

lemma UpdateDetection_Inr:
  "UpdateDetection w m = Inr m' \<Longrightarrow>
     \<exists>p S. Player m = Some p \<and> DetectionPoint w p = Some S
       \<and> m' = m\<lparr>IlluminanceTotal :=
                   CheckSpotLights_loop w (ForgivenessBuffer m) S (SpotLights m)
                     (CheckPointLights_loop (ForgivenessBuffer m) S (PointLights m) (Finite 0)),
                 Evaluations := Suc (Evaluations m)\<rparr>"
  by (auto simp add: UpdateDetection_def CheckSpotLights_def CheckPointLights_def Let_def
      split: option.splits)

lemma UpdateDetection_runs:
  "Player m = Some p \<Longrightarrow> DetectionPoint w p = Some S \<Longrightarrow>
     UpdateDetection w m =
       Inr (m\<lparr>IlluminanceTotal :=
                CheckSpotLights_loop w (ForgivenessBuffer m) S (SpotLights m)
                  (CheckPointLights_loop (ForgivenessBuffer m) S (PointLights m) (Finite 0)),
              Evaluations := Suc (Evaluations m)\<rparr>)"
  by (simp add: UpdateDetection_def CheckSpotLights_def CheckPointLights_def Let_def)

text \<open>The three cases of the detection point.\<close>

lemma DetectionPoint_no_floor:
  "w P (P + Scaled DownVector 100) ECC_GameTraceChannel5 = None \<Longrightarrow>
     DetectionPoint w P = Some (P - Scaled UpVector (93980003 / 1000000))"
  by (simp add: DetectionPoint_def vec_defs DownVector_def UpVector_def)

lemma DetectionPoint_standing:
  "w P (P + Scaled DownVector 100) ECC_GameTraceChannel5 = Some h \<Longrightarrow>
     Distance h P < 98 \<Longrightarrow> DetectionPoint w P = Some (h + Scaled UpVector 10)"
  by (simp add: DetectionPoint_def)

lemma DetectionPoint_floor_out_of_standing_range:
  "w P (P + Scaled DownVector 100) ECC_GameTraceChannel5 = Some h \<Longrightarrow>
     98 \<le> Distance h P \<Longrightarrow> DetectionPoint w P = None"
  by (simp add: DetectionPoint_def)

lemma ExampleDetectionPoint:
  "DetectionPoint OpenWorld (FVector 0 0 0) = Some (FVector 0 0 (- (93980003 / 1000000)))"
  by (simp add: DetectionPoint_def OpenWorld_def vec_defs DownVector_def)

lemma ExampleDetectionPoint_raised:
  "DetectionPoint OpenWorld (FVector 0 0 (93980003 / 1000000)) = Some (FVector 0 0 0)"
  by (simp add: DetectionPoint_def OpenWorld_def vec_defs DownVector_def)

lemma ExamplePointStep:
  "PointLightStep 0 (FVector 0 0 (- (93980003 / 1000000))) ExamplePointLight = Assign (Finite 1)"
  by (simp add: PointLightStep_def ExamplePointLight_def vec_defs)

lemma ExamplePointStep_origin:
  "PointLightStep 0 (FVector 0 0 0) ExamplePointLight = Assign (Finite 1)"
  "PointLightStep 0 (FVector 0 0 0) (ExamplePointLight\<lparr>Intensity := 0\<rparr>) = Return"
  by (simp_all add: PointLightStep_def ExamplePointLight_def vec_defs)

lemma sqrt_40000: "sqrt 40000 = 200"
  by (rule real_sqrt_unique) simp_all

lemma ExampleSpotStep:
  "SpotLightStep OpenWorld 0 (FVector 0 0 0) ExampleSpotLight = Assign (Finite 1)"
proof -
  have safe: "GetSafeNormal (FVector 0 0 0 - FVector 0 0 200) = FVector 0 0 (- 1)"
    by (simp add: GetSafeNormal_def vec_defs SMALL_NUMBER_def sqrt_40000)
  have "(500 * cos (pi / 6)) * (500 * cos (pi / 6)) = 187500"
    by (simp add: cos_30 algebra_simps)
  then have reach: "\<not> BeyondConeHeight 0 (FVector 0 0 0) ExampleSpotLight"
    by (simp add: BeyondConeHeight_def ExampleSpotLight_def Let_def vec_defs sqrt_40000 Acos_def)
  show ?thesis
    unfolding SpotLightStep_included
    using reach by (simp add: ExampleSpotLight_def safe OpenWorld_def DotProduct_def Acos_def)
qed

section \<open>The point-light pass\<close>

text \<open>
  The loop leaves the function at a light that is hidden or has no intensity: the
  lights after it are not looked at.
\<close>

lemma CheckPointLights_loop_stops:
  "\<not> IsVisible l \<or> Intensity l \<le> 0 \<Longrightarrow> CheckPointLights_loop fb P (l # ls) illum = illum"
  by (simp add: PointLightStep_def)

text \<open>
  C1.  A point light that is hidden or has no intensity is to be skipped alone, the
  lights after it still being evaluated.  The source returns instead.  With the
  catalog holding a hidden light and then a visible light of intensity 10 and
  radius 500 that is 100 units from the detection point, the total stays 0; with the
  same two lights in the other order it is 1.
\<close>

theorem CheckPointLights_returns_at_hidden_light:
  "CheckPointLights_loop 0 (FVector 0 0 0)
     [ExamplePointLight\<lparr>IsVisible := False\<rparr>, ExamplePointLight] (Finite 0) = Finite 0
   \<and> CheckPointLights_loop 0 (FVector 0 0 0)
       [ExamplePointLight, ExamplePointLight\<lparr>IsVisible := False\<rparr>] (Finite 0) = Finite 1"
  by (simp add: PointLightStep_def ExamplePointLight_def vec_defs)

text \<open>
  C2, as stated: an evaluation that includes n point lights ends the point-light pass
  with a total of n.  Two included point lights give a total of 1, not 2.
\<close>

theorem two_point_lights_total_is_not_two:
  "IncludedPointLights 0 (FVector 0 0 0) [ExamplePointLight, ExamplePointLight] = 2
   \<and> CheckPointLights_loop 0 (FVector 0 0 0) [ExamplePointLight, ExamplePointLight] (Finite 0)
       \<noteq> Finite 2"
  by (simp add: PointLightStep_def ExamplePointLight_def vec_defs)

text \<open>
  C2, amended.  An evaluation that reads a player and a detection point runs the
  point-light pass from a total of 0 and the spot-light pass from its result,
  whatever the total was before.  The only effect of a point or a spot light on the
  total is to store the constant 1 in it; nothing is added.  So a pass that includes
  no light returns the total it was given and a pass that includes one light or more
  returns 1: the point-light pass of an evaluation ends with 0 when it includes no
  light and with 1 otherwise, and neither pass takes a total of 1 back to 0, so that
  the total does not decrease within an evaluation.
\<close>

theorem point_pass_total_is_binary:
  "(Player m = Some p \<and> DetectionPoint w p = Some S \<longrightarrow>
      UpdateDetection w m =
        Inr (m\<lparr>IlluminanceTotal :=
                 CheckSpotLights_loop w (ForgivenessBuffer m) S (SpotLights m)
                   (CheckPointLights_loop (ForgivenessBuffer m) S (PointLights m) (Finite 0)),
               Evaluations := Suc (Evaluations m)\<rparr>))
   \<and> (PointLightStep fb P l = Return \<or> PointLightStep fb P l = Continue
        \<or> PointLightStep fb P l = Assign (Finite 1))
   \<and> (SpotLightStep w fb P s = Continue \<or> SpotLightStep w fb P s = Assign (Finite 1))
   \<and> CheckPointLights_loop fb P ls illum
       = (if IncludedPointLights fb P ls = 0 then illum else Finite 1)
   \<and> CheckSpotLights_loop w fb P spots illum
       = (if IncludedSpotLights w fb P spots = 0 then illum else Finite 1)
   \<and> CheckPointLights_loop fb P ls (Finite 1) = Finite 1
   \<and> CheckSpotLights_loop w fb P spots (Finite 1) = Finite 1"
  using UpdateDetection_runs [of m p w S] PointLightStep_cases [of fb P l]
    SpotLightStep_cases [of w fb P s] point_loop_counted [of fb P ls]
    spot_loop_counted [of w fb P spots]
  by simp

theorem point_pass_total_is_binary_witness:
  "UpdateDetection OpenWorld
     (ExampleManager\<lparr>IlluminanceTotal := Finite 1,
        PointLights := [ExamplePointLight\<lparr>IsVisible := False\<rparr>]\<rparr>)
     = Inr (ExampleManager\<lparr>IlluminanceTotal := Finite 0,
              PointLights := [ExamplePointLight\<lparr>IsVisible := False\<rparr>], Evaluations := 1\<rparr>)
   \<and> UpdateDetection OpenWorld
       (ExampleManager\<lparr>Player := Some (FVector 0 0 (93980003 / 1000000)),
          SpotLights := [ExampleSpotLight, ExampleSpotLight]\<rparr>)
     = Inr (ExampleManager\<lparr>Player := Some (FVector 0 0 (93980003 / 1000000)),
              SpotLights := [ExampleSpotLight, ExampleSpotLight],
              IlluminanceTotal := Finite 1, Evaluations := 1\<rparr>)
   \<and> IncludedPointLights 0 (FVector 0 0 0) [ExamplePointLight, ExamplePointLight] = 2
   \<and> CheckPointLights_loop 0 (FVector 0 0 0) [ExamplePointLight, ExamplePointLight] (Finite 0)
       = Finite 1
   \<and> CheckPointLights_loop 0 (FVector 0 0 0) [ExamplePointLight\<lparr>Intensity := 0\<rparr>] (Finite 0)
       = Finite 0
   \<and> PointLightStep 0 (FVector 0 0 0) ExamplePointLight = Assign (Finite 1)
   \<and> SpotLightStep OpenWorld 0 (FVector 0 0 0) ExampleSpotLight = Assign (Finite 1)"
proof -
  let ?m1 = "ExampleManager\<lparr>IlluminanceTotal := Finite 1,
        PointLights := [ExamplePointLight\<lparr>IsVisible := False\<rparr>]\<rparr>"
  let ?m2 = "ExampleManager\<lparr>Player := Some (FVector 0 0 (93980003 / 1000000)),
          SpotLights := [ExampleSpotLight, ExampleSpotLight]\<rparr>"
  have p1: "Player ?m1 = Some (FVector 0 0 0)
      \<and> DetectionPoint OpenWorld (FVector 0 0 0) = Some (FVector 0 0 (- (93980003 / 1000000)))"
    by (simp add: ExampleManager_def ExampleDetectionPoint)
  have p2: "Player ?m2 = Some (FVector 0 0 (93980003 / 1000000))
      \<and> DetectionPoint OpenWorld (FVector 0 0 (93980003 / 1000000)) = Some (FVector 0 0 0)"
    by (simp add: ExampleManager_def ExampleDetectionPoint_raised)
  have hidden: "PointLightStep 0 S (ExamplePointLight\<lparr>IsVisible := False\<rparr>) = Return" for S
    by (simp add: PointLightStep_def)
  have first: "UpdateDetection OpenWorld ?m1
      = Inr (?m1\<lparr>IlluminanceTotal := Finite 0, Evaluations := 1\<rparr>)"
    using point_pass_total_is_binary
      [where m = ?m1 and w = OpenWorld and p = "FVector 0 0 0"
         and S = "FVector 0 0 (- (93980003 / 1000000))"] p1
    by (simp add: ExampleManager_def hidden)
  have second: "UpdateDetection OpenWorld ?m2
      = Inr (?m2\<lparr>IlluminanceTotal := Finite 1, Evaluations := 1\<rparr>)"
    using point_pass_total_is_binary
      [where m = ?m2 and w = OpenWorld and p = "FVector 0 0 (93980003 / 1000000)"
         and S = "FVector 0 0 0"] p2
    by (simp add: ExampleManager_def ExampleSpotStep)
  have third: "IncludedPointLights 0 (FVector 0 0 0) [ExamplePointLight, ExamplePointLight] = 2"
    by (simp add: ExamplePointStep_origin)
  have fourth: "CheckPointLights_loop 0 (FVector 0 0 0) [ExamplePointLight, ExamplePointLight]
      (Finite 0) = Finite 1"
    using point_pass_total_is_binary
      [where fb = 0 and P = "FVector 0 0 0" and ls = "[ExamplePointLight, ExamplePointLight]"
         and illum = "Finite 0"] third
    by simp
  have fifth: "CheckPointLights_loop 0 (FVector 0 0 0) [ExamplePointLight\<lparr>Intensity := 0\<rparr>]
      (Finite 0) = Finite 0"
    by (simp add: ExamplePointStep_origin)
  from first second third fourth fifth ExamplePointStep_origin(1) ExampleSpotStep
  show ?thesis by (simp add: ExampleManager_def)
qed

section \<open>The detection point\<close>

text \<open>
  C3.  The detection point is to be defined in every case, the fallback point below
  the player being used whenever the floor is not within standing range.  The source
  assigns the fallback only when the probe hits nothing.  With the floor hit 99 units
  below a player at the origin, no branch assigns the detection point and the
  evaluation reads a variable that holds no value.
\<close>

theorem DetectionPoint_unassigned_at_99:
  "DetectionPoint (BlockedWorld (FVector 0 0 (- 99))) (FVector 0 0 0) = None
   \<and> UpdateDetection (BlockedWorld (FVector 0 0 (- 99))) ExampleManager
       = Inl UninitializedDetectionPoint"
  by (simp add: UpdateDetection_def ExampleManager_def DetectionPoint_def BlockedWorld_def
        vec_defs)

section \<open>The spot-light pass at the apex\<close>

lemma displacement_zero: "(P::FVector) - P = 0"
  by (simp add: minus_FVector_def zero_FVector_def)

lemma GetSafeNormal_zero: "GetSafeNormal 0 = 0"
  by (simp add: GetSafeNormal_def SizeSquared_def zero_FVector_def SMALL_NUMBER_def)

lemma DotProduct_zero: "DotProduct F 0 = 0"
  by (simp add: DotProduct_def zero_FVector_def)

text \<open>At the apex the safe normal of the displacement is the zero vector: a right angle.\<close>

lemma apex_angle: "Acos (DotProduct F (GetSafeNormal (P - P))) = pi / 2"
  by (simp add: displacement_zero GetSafeNormal_zero DotProduct_zero Acos_def)

lemma apex_not_beyond: "0 \<le> fb \<Longrightarrow> \<not> BeyondConeHeight fb (GetLightPosition l) l"
  by (simp add: BeyondConeHeight_def Let_def vec_defs Acos_def not_less)

text \<open>
  C4, as stated: a visible spot light of positive intensity with no occluder includes
  a subject that stands exactly at its apex.  The light of the example, with an outer
  cone angle of 30 degrees, does not.
\<close>

theorem spot_light_at_apex_not_included:
  "SpotLightStep OpenWorld 0 (FVector 0 0 200) ExampleSpotLight = Continue
   \<and> CheckSpotLights_loop OpenWorld 0 (FVector 0 0 200) [ExampleSpotLight] (Finite 0) = Finite 0"
  by (simp add: SpotLightStep_def BeyondConeHeight_def ExampleSpotLight_def OpenWorld_def
        Acos_def GetSafeNormal_def SMALL_NUMBER_def vec_defs Let_def)

text \<open>
  C4, amended.  When the detection point is the light's apex, the displacement has
  length zero, its safe normal is the zero vector and the angle between the light's
  direction and the subject evaluates to 90 degrees.  A spot light whose outer cone
  angle is below 90 degrees therefore skips the subject.  A visible, unoccluded spot
  light of positive intensity, with a buffer that is not negative, includes the
  subject exactly when its outer cone angle is 90 degrees or more.
\<close>

theorem spot_light_at_apex:
  "(OuterConeAngle l < 90 \<longrightarrow> SpotLightStep w fb (GetLightPosition l) l = Continue)
   \<and> (IsVisible l \<and> 0 < Intensity l \<and> 0 \<le> fb
        \<and> w (GetLightPosition l) (GetLightPosition l) ECC_GameTraceChannel5 = None \<longrightarrow>
        SpotLightStep w fb (GetLightPosition l) l
          = (if OuterConeAngle l < 90 then Continue else Assign (Finite 1)))"
  by (simp add: SpotLightStep_def Let_def apex_angle apex_not_beyond)

theorem spot_light_at_apex_witness:
  "OuterConeAngle ExampleSpotLight < 90
   \<and> SpotLightStep OpenWorld 0 (GetLightPosition ExampleSpotLight) ExampleSpotLight = Continue
   \<and> IsVisible (ExampleSpotLight\<lparr>OuterConeAngle := 90\<rparr>)
   \<and> 0 < Intensity (ExampleSpotLight\<lparr>OuterConeAngle := 90\<rparr>)
   \<and> SpotLightStep OpenWorld 0 (GetLightPosition ExampleSpotLight)
        (ExampleSpotLight\<lparr>OuterConeAngle := 90\<rparr>) = Assign (Finite 1)"
  using spot_light_at_apex [of ExampleSpotLight OpenWorld 0]
    spot_light_at_apex [of "ExampleSpotLight\<lparr>OuterConeAngle := 90\<rparr>" OpenWorld 0]
  by (simp add: ExampleSpotLight_def OpenWorld_def)

section \<open>The rect-light pass\<close>

text \<open>
  The example light: an emitter 7 wide and 7 high at the origin, facing along the
  first axis, with barn doors of length 15 at an angle whose sine is 3/5.  Its far
  rectangle lies 12 units ahead and is 25 wide and 25 high.
\<close>

lemma sqrt_19600: "sqrt 19600 = 140"
  by (rule real_sqrt_unique) simp_all

lemma cos_example_angle: "cos (arcsin (3 / 5)) = 4 / 5"
proof -
  have "cos (arcsin (3 / 5 :: real)) = sqrt (1 - (3 / 5)\<^sup>2)"
    by (rule cos_arcsin) simp_all
  also have "\<dots> = 4 / 5"
    by (rule real_sqrt_unique) (simp_all add: power2_eq_square)
  finally show ?thesis .
qed

lemma sin_example_angle: "sin (arcsin (3 / 5)) = 3 / 5"
  by simp

lemma RotateAngleAxis_example:
  "RotateAngleAxis (FVector 15 0 0) (- (arcsin (3 / 5) * 180 / pi)) (FVector 0 1 0)
     = FVector 12 0 9"
  by (simp add: RotateAngleAxis_def cos_example_angle)

lemma Normalize_example:
  "Normalize (FVector (- 112) 0 84) = FVector (- 4 / 5) 0 (3 / 5)"
  "Normalize (FVector (- 112) 84 0) = FVector (- 4 / 5) (3 / 5) 0"
  "Normalize (FVector (- 112) 0 (- 84)) = FVector (- 4 / 5) 0 (- 3 / 5)"
  "Normalize (FVector (- 112) (- 84) 0) = FVector (- 4 / 5) (- 3 / 5) 0"
  by (simp_all add: Normalize_def SizeSquared_def Scaled_def SMALL_NUMBER_def sqrt_19600)

lemma ExampleFrustum:
  "CalculateFrustumPoints (NewRectLightWrapper ExampleRectLight) =
     \<lparr>RectLight = ExampleRectLight,
      FrustumPoints =
        [FVector 0 (- 7 / 2) (7 / 2), FVector 0 (7 / 2) (7 / 2),
         FVector 0 (7 / 2) (- 7 / 2), FVector 0 (- 7 / 2) (- 7 / 2),
         FVector 12 (- 25 / 2) (25 / 2), FVector 12 (25 / 2) (25 / 2),
         FVector 12 (25 / 2) (- 25 / 2), FVector 12 (- 25 / 2) (- 25 / 2)],
      BoundingPlanes = replicate 4 (FPlane (FVector 0 0 0) 0)\<rparr>"
  unfolding CalculateFrustumPoints_def NewRectLightWrapper_def Let_def
  by (simp add: ExampleRectLight_def RotateAngleAxis_example eval_nat_numeral
        minus_FVector_def plus_FVector_def Scaled_def)

lemma ExamplePlanes:
  "CalculateBoundingPlanes (CalculateFrustumPoints (NewRectLightWrapper ExampleRectLight)) =
     \<lparr>RectLight = ExampleRectLight,
      FrustumPoints =
        [FVector 0 (- 7 / 2) (7 / 2), FVector 0 (7 / 2) (7 / 2),
         FVector 0 (7 / 2) (- 7 / 2), FVector 0 (- 7 / 2) (- 7 / 2),
         FVector 12 (- 25 / 2) (25 / 2), FVector 12 (25 / 2) (25 / 2),
         FVector 12 (25 / 2) (- 25 / 2), FVector 12 (- 25 / 2) (- 25 / 2)],
      BoundingPlanes =
        [FPlane (FVector (4 / 5) 0 (- 3 / 5)) (21 / 10),
         FPlane (FVector (4 / 5) (- 3 / 5) 0) (21 / 10),
         FPlane (FVector (4 / 5) 0 (3 / 5)) (21 / 10),
         FPlane (FVector (4 / 5) (3 / 5) 0) (21 / 10)]\<rparr>"
  unfolding ExampleFrustum CalculateBoundingPlanes_def Let_def
  by (simp add: eval_nat_numeral minus_FVector_def CrossProduct_def Normalize_example
        Flip_def DotProduct_def uminus_FVector_def)

lemma ExampleDists:
  "TopPlaneDist (FVector x y z)
     (CalculateBoundingPlanes (CalculateFrustumPoints (NewRectLightWrapper ExampleRectLight)))
     = 4 / 5 * x - 3 / 5 * z - 21 / 10"
  "RightPlaneDist (FVector x y z)
     (CalculateBoundingPlanes (CalculateFrustumPoints (NewRectLightWrapper ExampleRectLight)))
     = 4 / 5 * x - 3 / 5 * y - 21 / 10"
  "BottomPlaneDist (FVector x y z)
     (CalculateBoundingPlanes (CalculateFrustumPoints (NewRectLightWrapper ExampleRectLight)))
     = 4 / 5 * x + 3 / 5 * z - 21 / 10"
  "LeftPlaneDist (FVector x y z)
     (CalculateBoundingPlanes (CalculateFrustumPoints (NewRectLightWrapper ExampleRectLight)))
     = 4 / 5 * x + 3 / 5 * y - 21 / 10"
  unfolding ExamplePlanes
  by (simp_all add: TopPlaneDist_def RightPlaneDist_def BottomPlaneDist_def LeftPlaneDist_def
        PointPlaneDist_def DotProduct_def minus_FVector_def eval_nat_numeral field_simps)

lemma sqrt_169: "sqrt 169 = 13"
  by (rule real_sqrt_unique) simp_all

text \<open>
  The loop goes through a stretch of visible lights without leaving the function, so
  the lights after the stretch are evaluated on the total the stretch ends with.
\<close>

lemma RectLightStep_visible_no_Return:
  "IsVisible (RectLight rw) \<Longrightarrow> RectLightStep w fb P rw \<noteq> Inr (Return, x)"
  by (auto simp add: RectLightStep_def Let_def split: option.splits)

lemma CheckRectLights_loop_append:
  "\<forall>x\<in>set pre. IsVisible (RectLight x) \<Longrightarrow>
     CheckRectLights_loop w fb P (pre @ rest) illum =
       (case CheckRectLights_loop w fb P pre illum of
          Inl f \<Rightarrow> Inl f
        | Inr (pre', illum1) \<Rightarrow>
            (case CheckRectLights_loop w fb P rest illum1 of
               Inl f \<Rightarrow> Inl f
             | Inr (rest', illum2) \<Rightarrow> Inr (pre' @ rest', illum2)))"
proof (induction pre arbitrary: illum)
  case Nil
  show ?case by (simp split: sum.splits prod.splits)
next
  case (Cons a pre)
  from Cons.prems have vis: "IsVisible (RectLight a)" and rest: "\<forall>x\<in>set pre. IsVisible (RectLight x)"
    by simp_all
  show ?case
  proof (cases "RectLightStep w fb P a")
    case (Inl f)
    then show ?thesis by simp
  next
    case (Inr r)
    obtain eff a' where r: "r = (eff, a')" by (cases r)
    with Inr RectLightStep_visible_no_Return [OF vis, of w fb P a'] have "eff \<noteq> Return"
      by auto
    with Inr r Cons.IH [OF rest] show ?thesis
      by (cases eff) (auto split: sum.splits prod.splits)
  qed
qed

text \<open>
  Each distance the evaluator computes is the signed distance of the tested position
  to the bounding plane it has stored: the anchor point it uses lies on that plane.
\<close>

lemma DotProduct_Scaled: "DotProduct (Scaled n s) v = s * DotProduct n v"
  by (simp add: DotProduct_def Scaled_def algebra_simps)

lemma DotProduct_Normalize_zero:
  "DotProduct n v = 0 \<Longrightarrow> DotProduct (Normalize n) v = 0"
  by (simp add: Normalize_def Let_def DotProduct_Scaled)

lemma CrossProduct_orthogonal:
  "DotProduct (CrossProduct a b) a = 0" "DotProduct (CrossProduct a b) b = 0"
  by (simp_all add: DotProduct_def CrossProduct_def algebra_simps)

lemma plane_normal_orthogonal:
  "DotProduct (Normalize (CrossProduct a b)) a = 0"
  by (simp add: DotProduct_Normalize_zero CrossProduct_orthogonal)

lemma PlaneDot_Flip:
  "PlaneDot (Flip (FPlane n (DotProduct n q))) P = PointPlaneDist P q (GetNormal (Flip (FPlane n (DotProduct n q))))"
  by (simp add: PlaneDot_def Flip_def PointPlaneDist_def DotProduct_def minus_FVector_def
      uminus_FVector_def algebra_simps)

lemma PointPlaneDist_anchor:
  "DotProduct n (q - q') = 0 \<Longrightarrow> PointPlaneDist P q (- n) = PointPlaneDist P q' (- n)"
  by (simp add: PointPlaneDist_def DotProduct_def minus_FVector_def uminus_FVector_def
      algebra_simps)

lemma four_planes:
  "4 \<le> length (bp :: FPlane list) \<Longrightarrow> \<exists>a b c d r. bp = a # b # c # d # r"
  by (auto simp add: Suc_le_length_iff eval_nat_numeral)

lemma CalculateBoundingPlanes_nth:
  assumes "4 \<le> length (BoundingPlanes rw0)"
  shows "BoundingPlanes (CalculateBoundingPlanes rw0) ! 0 =
           Flip (FPlane (Normalize (CrossProduct (FrustumPoints rw0 ! 3 - FrustumPoints rw0 ! 2)
                                      (FrustumPoints rw0 ! 4 - FrustumPoints rw0 ! 2)))
                   (DotProduct (Normalize (CrossProduct (FrustumPoints rw0 ! 3 - FrustumPoints rw0 ! 2)
                                      (FrustumPoints rw0 ! 4 - FrustumPoints rw0 ! 2)))
                      (FrustumPoints rw0 ! 2)))"
    and "BoundingPlanes (CalculateBoundingPlanes rw0) ! 1 =
           Flip (FPlane (Normalize (CrossProduct (FrustumPoints rw0 ! 0 - FrustumPoints rw0 ! 3)
                                      (FrustumPoints rw0 ! 5 - FrustumPoints rw0 ! 3)))
                   (DotProduct (Normalize (CrossProduct (FrustumPoints rw0 ! 0 - FrustumPoints rw0 ! 3)
                                      (FrustumPoints rw0 ! 5 - FrustumPoints rw0 ! 3)))
                      (FrustumPoints rw0 ! 0)))"
    and "BoundingPlanes (CalculateBoundingPlanes rw0) ! 2 =
           Flip (FPlane (Normalize (CrossProduct (FrustumPoints rw0 ! 7 - FrustumPoints rw0 ! 1)
                                      (FrustumPoints rw0 ! 0 - FrustumPoints rw0 ! 1)))
                   (DotProduct (Normalize (CrossProduct (FrustumPoints rw0 ! 7 - FrustumPoints rw0 ! 1)
                                      (FrustumPoints rw0 ! 0 - FrustumPoints rw0 ! 1)))
                      (FrustumPoints rw0 ! 0)))"
    and "BoundingPlanes (CalculateBoundingPlanes rw0) ! 3 =
           Flip (FPlane (Normalize (CrossProduct (FrustumPoints rw0 ! 4 - FrustumPoints rw0 ! 2)
                                      (FrustumPoints rw0 ! 1 - FrustumPoints rw0 ! 2)))
                   (DotProduct (Normalize (CrossProduct (FrustumPoints rw0 ! 4 - FrustumPoints rw0 ! 2)
                                      (FrustumPoints rw0 ! 1 - FrustumPoints rw0 ! 2)))
                      (FrustumPoints rw0 ! 1)))"
    and "FrustumPoints (CalculateBoundingPlanes rw0) = FrustumPoints rw0"
proof -
  from four_planes [OF assms] obtain a b c d r where bp: "BoundingPlanes rw0 = a # b # c # d # r"
    by blast
  show "BoundingPlanes (CalculateBoundingPlanes rw0) ! 0 =
           Flip (FPlane (Normalize (CrossProduct (FrustumPoints rw0 ! 3 - FrustumPoints rw0 ! 2)
                                      (FrustumPoints rw0 ! 4 - FrustumPoints rw0 ! 2)))
                   (DotProduct (Normalize (CrossProduct (FrustumPoints rw0 ! 3 - FrustumPoints rw0 ! 2)
                                      (FrustumPoints rw0 ! 4 - FrustumPoints rw0 ! 2)))
                      (FrustumPoints rw0 ! 2)))"
    unfolding CalculateBoundingPlanes_def Let_def bp by (simp add: eval_nat_numeral)
  show "BoundingPlanes (CalculateBoundingPlanes rw0) ! 1 =
           Flip (FPlane (Normalize (CrossProduct (FrustumPoints rw0 ! 0 - FrustumPoints rw0 ! 3)
                                      (FrustumPoints rw0 ! 5 - FrustumPoints rw0 ! 3)))
                   (DotProduct (Normalize (CrossProduct (FrustumPoints rw0 ! 0 - FrustumPoints rw0 ! 3)
                                      (FrustumPoints rw0 ! 5 - FrustumPoints rw0 ! 3)))
                      (FrustumPoints rw0 ! 0)))"
    unfolding CalculateBoundingPlanes_def Let_def bp by (simp add: eval_nat_numeral)
  show "BoundingPlanes (CalculateBoundingPlanes rw0) ! 2 =
           Flip (FPlane (Normalize (CrossProduct (FrustumPoints rw0 ! 7 - FrustumPoints rw0 ! 1)
                                      (FrustumPoints rw0 ! 0 - FrustumPoints rw0 ! 1)))
                   (DotProduct (Normalize (CrossProduct (FrustumPoints rw0 ! 7 - FrustumPoints rw0 ! 1)
                                      (FrustumPoints rw0 ! 0 - FrustumPoints rw0 ! 1)))
                      (FrustumPoints rw0 ! 0)))"
    unfolding CalculateBoundingPlanes_def Let_def bp by (simp add: eval_nat_numeral)
  show "BoundingPlanes (CalculateBoundingPlanes rw0) ! 3 =
           Flip (FPlane (Normalize (CrossProduct (FrustumPoints rw0 ! 4 - FrustumPoints rw0 ! 2)
                                      (FrustumPoints rw0 ! 1 - FrustumPoints rw0 ! 2)))
                   (DotProduct (Normalize (CrossProduct (FrustumPoints rw0 ! 4 - FrustumPoints rw0 ! 2)
                                      (FrustumPoints rw0 ! 1 - FrustumPoints rw0 ! 2)))
                      (FrustumPoints rw0 ! 1)))"
    unfolding CalculateBoundingPlanes_def Let_def bp by (simp add: eval_nat_numeral)
  show "FrustumPoints (CalculateBoundingPlanes rw0) = FrustumPoints rw0"
    by (simp add: CalculateBoundingPlanes_def Let_def)
qed

lemma plane_distances:
  assumes "4 \<le> length (BoundingPlanes rw0)" and "rw' = CalculateBoundingPlanes rw0"
  shows "TopPlaneDist P rw' = PlaneDot (BoundingPlanes rw' ! 0) P
    \<and> RightPlaneDist P rw' = PlaneDot (BoundingPlanes rw' ! 1) P
    \<and> BottomPlaneDist P rw' = PlaneDot (BoundingPlanes rw' ! 2) P
    \<and> LeftPlaneDist P rw' = PlaneDot (BoundingPlanes rw' ! 3) P"
proof -
  let ?fp = "FrustumPoints rw0"
  let ?n = "Normalize (CrossProduct (?fp ! 3 - ?fp ! 2) (?fp ! 4 - ?fp ! 2))"
  have "DotProduct ?n (?fp ! 3 - ?fp ! 2) = 0"
    by (rule plane_normal_orthogonal)
  then have top: "PointPlaneDist P (?fp ! 3) (- ?n) = PointPlaneDist P (?fp ! 2) (- ?n)"
    by (rule PointPlaneDist_anchor)
  note planes = CalculateBoundingPlanes_nth [OF assms(1)]
  have "TopPlaneDist P rw' = PlaneDot (BoundingPlanes rw' ! 0) P"
    unfolding assms(2) TopPlaneDist_def planes PlaneDot_Flip
    using top by (simp add: Flip_def)
  moreover have "RightPlaneDist P rw' = PlaneDot (BoundingPlanes rw' ! 1) P"
    unfolding assms(2) RightPlaneDist_def planes PlaneDot_Flip ..
  moreover have "BottomPlaneDist P rw' = PlaneDot (BoundingPlanes rw' ! 2) P"
    unfolding assms(2) BottomPlaneDist_def planes PlaneDot_Flip ..
  moreover have "LeftPlaneDist P rw' = PlaneDot (BoundingPlanes rw' ! 3) P"
    unfolding assms(2) LeftPlaneDist_def planes PlaneDot_Flip ..
  ultimately show ?thesis by blast
qed

lemma CalculateFrustumPoints_planes:
  "BoundingPlanes (CalculateFrustumPoints rw) = BoundingPlanes rw"
  by (simp add: CalculateFrustumPoints_def Let_def)

text \<open>
  The body of the loop for a visible light in range whose occlusion ray is unblocked.
\<close>

lemma RectLightStep_unblocked:
  assumes "IsVisible (RectLight rw)"
    and "DistSquared (GetLightPosition (RectLight rw)) P
           \<le> AttenuationRadius (RectLight rw) * AttenuationRadius (RectLight rw) + fb"
    and "w (GetLightPosition (RectLight rw)) P ECC_GameTraceChannel5 = None"
    and "8 \<le> length (FrustumPoints rw)" and "4 \<le> length (BoundingPlanes rw)"
    and "rw' = CalculateBoundingPlanes (CalculateFrustumPoints rw)"
  shows "RectLightStep w fb P rw =
           Inr (if 0 < TopPlaneDist P rw' \<and> 0 < RightPlaneDist P rw'
                   \<and> 0 < BottomPlaneDist P rw' \<and> 0 < LeftPlaneDist P rw'
                then Accumulate
                       (FloatDivide (Intensity (RectLight rw))
                          (Finite (2 * pi * (sqrt (DistSquared (GetLightPosition (RectLight rw)) P)
                                               * (1 / 100)))))
                else Continue,
                rw')"
  using assms by (simp add: RectLightStep_def Let_def not_less)

lemma ExamplePlaneDots:
  "PlaneDot (BoundingPlanes
      (CalculateBoundingPlanes (CalculateFrustumPoints (NewRectLightWrapper ExampleRectLight))) ! 0)
     (FVector x y z) = 4 / 5 * x - 3 / 5 * z - 21 / 10"
  "PlaneDot (BoundingPlanes
      (CalculateBoundingPlanes (CalculateFrustumPoints (NewRectLightWrapper ExampleRectLight))) ! 1)
     (FVector x y z) = 4 / 5 * x - 3 / 5 * y - 21 / 10"
  "PlaneDot (BoundingPlanes
      (CalculateBoundingPlanes (CalculateFrustumPoints (NewRectLightWrapper ExampleRectLight))) ! 2)
     (FVector x y z) = 4 / 5 * x + 3 / 5 * z - 21 / 10"
  "PlaneDot (BoundingPlanes
      (CalculateBoundingPlanes (CalculateFrustumPoints (NewRectLightWrapper ExampleRectLight))) ! 3)
     (FVector x y z) = 4 / 5 * x + 3 / 5 * y - 21 / 10"
  unfolding ExamplePlanes
  by (simp_all add: PlaneDot_def DotProduct_def eval_nat_numeral)

text \<open>
  The plane stored as the top plane passes through the bottom edge of the emitter and
  the top edge of the far rectangle, and likewise for the other three: the positive
  side of the four planes is a pyramid whose apex lies ahead of the emitter, so that
  a point on the axis one unit ahead of the emitter is on the negative side.
\<close>

lemma ExamplePlanes_run_diagonally:
  "PlaneDot (BoundingPlanes
      (CalculateBoundingPlanes (CalculateFrustumPoints (NewRectLightWrapper ExampleRectLight))) ! 0)
     (FVector 0 (- 7 / 2) (- 7 / 2)) = 0"
  "PlaneDot (BoundingPlanes
      (CalculateBoundingPlanes (CalculateFrustumPoints (NewRectLightWrapper ExampleRectLight))) ! 0)
     (FVector 12 (- 25 / 2) (25 / 2)) = 0"
  "PlaneDot (BoundingPlanes
      (CalculateBoundingPlanes (CalculateFrustumPoints (NewRectLightWrapper ExampleRectLight))) ! 0)
     (FVector 1 0 0) < 0"
  unfolding ExamplePlaneDots by simp_all

lemma ExampleRectStep:
  "RectLightStep OpenWorld 0 (FVector 12 5 z) (NewRectLightWrapper ExampleRectLight) =
     Inr (if 0 < 15 / 2 - 3 / 5 * z \<and> 0 < 15 / 2 + 3 / 5 * z
          then Accumulate (FloatDivide 100 (Finite (2 * pi * (sqrt (169 + z * z) * (1 / 100)))))
          else Continue,
          CalculateBoundingPlanes (CalculateFrustumPoints (NewRectLightWrapper ExampleRectLight)))"
  if "z * z \<le> 10000" for z
proof -
  let ?rw = "NewRectLightWrapper ExampleRectLight"
  have "RectLightStep OpenWorld 0 (FVector 12 5 z) ?rw = Inr
     (if 0 < TopPlaneDist (FVector 12 5 z) (CalculateBoundingPlanes (CalculateFrustumPoints ?rw))
         \<and> 0 < RightPlaneDist (FVector 12 5 z) (CalculateBoundingPlanes (CalculateFrustumPoints ?rw))
         \<and> 0 < BottomPlaneDist (FVector 12 5 z) (CalculateBoundingPlanes (CalculateFrustumPoints ?rw))
         \<and> 0 < LeftPlaneDist (FVector 12 5 z) (CalculateBoundingPlanes (CalculateFrustumPoints ?rw))
      then Accumulate
             (FloatDivide (Intensity (RectLight ?rw))
                (Finite (2 * pi * (sqrt (DistSquared (GetLightPosition (RectLight ?rw)) (FVector 12 5 z))
                                     * (1 / 100)))))
      else Continue,
      CalculateBoundingPlanes (CalculateFrustumPoints ?rw))"
    using that
    by (intro RectLightStep_unblocked)
      (simp_all add: NewRectLightWrapper_def ExampleRectLight_def OpenWorld_def
        DistSquared_def SizeSquared_def minus_FVector_def)
  also have "\<dots> = Inr (if 0 < 15 / 2 - 3 / 5 * z \<and> 0 < 15 / 2 + 3 / 5 * z
          then Accumulate (FloatDivide 100 (Finite (2 * pi * (sqrt (169 + z * z) * (1 / 100)))))
          else Continue,
          CalculateBoundingPlanes (CalculateFrustumPoints ?rw))"
    unfolding ExampleDists
    by (simp add: NewRectLightWrapper_def ExampleRectLight_def
        DistSquared_def SizeSquared_def minus_FVector_def)
  finally show ?thesis .
qed

text \<open>
  C5, as stated: a rect light is included exactly when the sampling point is within
  range, the occlusion ray to it is unblocked and it lies on the positive side of the
  four bounding planes.  \<open>CheckRectLights\<close> does not look at the sampling point: it
  tests the player's location.  With the player at (12, 5, 93.980003) over no floor,
  the sampling point is (12, 5, 0).  It is in range of the example light, unoccluded
  and on the positive side of the four planes, and the light is not included: the
  total stays 0.
\<close>

theorem rect_light_tests_player_location:
  "DetectionPoint OpenWorld (FVector 12 5 (93980003 / 1000000)) = Some (FVector 12 5 0)
   \<and> DistSquared (GetLightPosition ExampleRectLight) (FVector 12 5 0)
       \<le> AttenuationRadius ExampleRectLight * AttenuationRadius ExampleRectLight + 0
   \<and> OpenWorld (GetLightPosition ExampleRectLight) (FVector 12 5 0) ECC_GameTraceChannel5 = None
   \<and> 0 < TopPlaneDist (FVector 12 5 0)
         (CalculateBoundingPlanes (CalculateFrustumPoints (NewRectLightWrapper ExampleRectLight)))
   \<and> 0 < RightPlaneDist (FVector 12 5 0)
         (CalculateBoundingPlanes (CalculateFrustumPoints (NewRectLightWrapper ExampleRectLight)))
   \<and> 0 < BottomPlaneDist (FVector 12 5 0)
         (CalculateBoundingPlanes (CalculateFrustumPoints (NewRectLightWrapper ExampleRectLight)))
   \<and> 0 < LeftPlaneDist (FVector 12 5 0)
         (CalculateBoundingPlanes (CalculateFrustumPoints (NewRectLightWrapper ExampleRectLight)))
   \<and> CheckRectLights OpenWorld
        (ExampleManager\<lparr>Player := Some (FVector 12 5 (93980003 / 1000000)),
           RectLights := [NewRectLightWrapper ExampleRectLight]\<rparr>)
       = Inr (ExampleManager\<lparr>Player := Some (FVector 12 5 (93980003 / 1000000)),
                RectLights :=
                  [CalculateBoundingPlanes
                     (CalculateFrustumPoints (NewRectLightWrapper ExampleRectLight))]\<rparr>)"
proof -
  have "CheckRectLights OpenWorld
        (ExampleManager\<lparr>Player := Some (FVector 12 5 (93980003 / 1000000)),
           RectLights := [NewRectLightWrapper ExampleRectLight]\<rparr>)
       = Inr (ExampleManager\<lparr>Player := Some (FVector 12 5 (93980003 / 1000000)),
                RectLights :=
                  [CalculateBoundingPlanes
                     (CalculateFrustumPoints (NewRectLightWrapper ExampleRectLight))]\<rparr>)"
    by (simp add: CheckRectLights_def ExampleManager_def ExampleRectStep)
  moreover have "DetectionPoint OpenWorld (FVector 12 5 (93980003 / 1000000))
      = Some (FVector 12 5 0)"
    by (simp add: DetectionPoint_def OpenWorld_def vec_defs DownVector_def)
  moreover have "DistSquared (GetLightPosition ExampleRectLight) (FVector 12 5 0)
       \<le> AttenuationRadius ExampleRectLight * AttenuationRadius ExampleRectLight + 0"
    by (simp add: ExampleRectLight_def vec_defs)
  moreover have "OpenWorld (GetLightPosition ExampleRectLight) (FVector 12 5 0)
      ECC_GameTraceChannel5 = None"
    by (simp add: OpenWorld_def)
  ultimately show ?thesis
    by (simp add: ExampleDists)
qed

text \<open>
  C5, amended.  Take a rect light of the catalog that the loop of \<open>CheckRectLights\<close>
  reaches, every light before it being visible and evaluated without a fault.  Let
  the light be visible, the player's location, which is the position the evaluator
  tests, be within the attenuation radius squared plus the buffer, and the occlusion
  ray from the light to the player's location be unblocked.  Then the light is
  included if and only if the signed distances from the player's location to the four
  bounding planes the evaluator has just recomputed (top, right, bottom, left) are
  all strictly positive, and a location that lies exactly on one of the planes is
  excluded.  The four distances the evaluator computes are these signed distances.
  An included light adds its intensity divided by \<open>2 * pi\<close> times the distance in
  metres to the total, and the lights after it are evaluated on that total.
\<close>

theorem rect_light_included_iff_inside_planes:
  assumes "Player m = Some P"
    and "RectLights m = pre @ rw # post"
    and "\<forall>x\<in>set pre. IsVisible (RectLight x)"
    and "CheckRectLights_loop w (ForgivenessBuffer m) P pre (IlluminanceTotal m)
           = Inr (pre', illum)"
    and "IsVisible (RectLight rw)"
    and "DistSquared (GetLightPosition (RectLight rw)) P
           \<le> AttenuationRadius (RectLight rw) * AttenuationRadius (RectLight rw)
               + ForgivenessBuffer m"
    and "w (GetLightPosition (RectLight rw)) P ECC_GameTraceChannel5 = None"
    and "8 \<le> length (FrustumPoints rw)" and "4 \<le> length (BoundingPlanes rw)"
    and "rw' = CalculateBoundingPlanes (CalculateFrustumPoints rw)"
    and "inside \<longleftrightarrow>
           0 < PlaneDot (BoundingPlanes rw' ! 0) P \<and> 0 < PlaneDot (BoundingPlanes rw' ! 1) P
           \<and> 0 < PlaneDot (BoundingPlanes rw' ! 2) P \<and> 0 < PlaneDot (BoundingPlanes rw' ! 3) P"
  shows "(Included (RectLightStep w (ForgivenessBuffer m) P rw) \<longleftrightarrow> inside)
    \<and> (PlaneDot (BoundingPlanes rw' ! 0) P = 0 \<or> PlaneDot (BoundingPlanes rw' ! 1) P = 0
         \<or> PlaneDot (BoundingPlanes rw' ! 2) P = 0 \<or> PlaneDot (BoundingPlanes rw' ! 3) P = 0
        \<longrightarrow> \<not> Included (RectLightStep w (ForgivenessBuffer m) P rw))
    \<and> TopPlaneDist P rw' = PlaneDot (BoundingPlanes rw' ! 0) P
    \<and> RightPlaneDist P rw' = PlaneDot (BoundingPlanes rw' ! 1) P
    \<and> BottomPlaneDist P rw' = PlaneDot (BoundingPlanes rw' ! 2) P
    \<and> LeftPlaneDist P rw' = PlaneDot (BoundingPlanes rw' ! 3) P
    \<and> CheckRectLights w m =
        (case CheckRectLights_loop w (ForgivenessBuffer m) P post
                (if inside
                 then FloatAdd illum
                        (FloatDivide (Intensity (RectLight rw))
                           (Finite (2 * pi * (sqrt (DistSquared (GetLightPosition (RectLight rw)) P)
                                                * (1 / 100)))))
                 else illum) of
           Inl f \<Rightarrow> Inl f
         | Inr (post', illum') \<Rightarrow>
             Inr (m\<lparr>RectLights := pre' @ rw' # post', IlluminanceTotal := illum'\<rparr>))"
proof -
  have planes: "4 \<le> length (BoundingPlanes (CalculateFrustumPoints rw))"
    using assms(9) by (simp add: CalculateFrustumPoints_planes)
  note dists = plane_distances [OF planes assms(10), of P]
  note step = RectLightStep_unblocked
      [where w = w and P = P and rw = rw and fb = "ForgivenessBuffer m" and rw' = rw',
        OF assms(5-10)]
  have incl: "Included (RectLightStep w (ForgivenessBuffer m) P rw) \<longleftrightarrow> inside"
    unfolding step assms(11) using dists by simp
  have on_plane: "PlaneDot (BoundingPlanes rw' ! 0) P = 0 \<or> PlaneDot (BoundingPlanes rw' ! 1) P = 0
         \<or> PlaneDot (BoundingPlanes rw' ! 2) P = 0 \<or> PlaneDot (BoundingPlanes rw' ! 3) P = 0
        \<longrightarrow> \<not> Included (RectLightStep w (ForgivenessBuffer m) P rw)"
    unfolding incl assms(11) by auto
  have rest: "CheckRectLights_loop w (ForgivenessBuffer m) P (rw # post) illum =
        (case CheckRectLights_loop w (ForgivenessBuffer m) P post
                (if inside
                 then FloatAdd illum
                        (FloatDivide (Intensity (RectLight rw))
                           (Finite (2 * pi * (sqrt (DistSquared (GetLightPosition (RectLight rw)) P)
                                                * (1 / 100)))))
                 else illum) of
           Inl f \<Rightarrow> Inl f
         | Inr (post', illum') \<Rightarrow> Inr (rw' # post', illum'))"
    using dists by (simp add: step assms(11))
  have whole: "CheckRectLights_loop w (ForgivenessBuffer m) P (pre @ rw # post)
        (IlluminanceTotal m) =
        (case CheckRectLights_loop w (ForgivenessBuffer m) P (rw # post) illum of
           Inl f \<Rightarrow> Inl f
         | Inr (rest', illum2) \<Rightarrow> Inr (pre' @ rest', illum2))"
    by (simp only: CheckRectLights_loop_append [OF assms(3)] assms(4) sum.case prod.case)
  have "CheckRectLights w m =
        (case CheckRectLights_loop w (ForgivenessBuffer m) P post
                (if inside
                 then FloatAdd illum
                        (FloatDivide (Intensity (RectLight rw))
                           (Finite (2 * pi * (sqrt (DistSquared (GetLightPosition (RectLight rw)) P)
                                                * (1 / 100)))))
                 else illum) of
           Inl f \<Rightarrow> Inl f
         | Inr (post', illum') \<Rightarrow>
             Inr (m\<lparr>RectLights := pre' @ rw' # post', IlluminanceTotal := illum'\<rparr>))"
    unfolding CheckRectLights_def assms(1) assms(2) option.case whole rest
    by (simp split: sum.splits prod.splits)
  then show ?thesis
    using incl on_plane dists by (intro conjI) (assumption | simp)+
qed

theorem rect_light_included_iff_inside_planes_witness:
  "CheckRectLights OpenWorld
     (ExampleManager\<lparr>Player := Some (FVector 12 5 0),
        RectLights :=
          [NewRectLightWrapper (ExampleRectLight\<lparr>GetLightPosition := FVector 0 0 1000\<rparr>),
           NewRectLightWrapper ExampleRectLight,
           NewRectLightWrapper (ExampleRectLight\<lparr>IsVisible := False\<rparr>)]\<rparr>)
     = Inr (ExampleManager\<lparr>Player := Some (FVector 12 5 0),
              RectLights :=
                [NewRectLightWrapper (ExampleRectLight\<lparr>GetLightPosition := FVector 0 0 1000\<rparr>),
                 CalculateBoundingPlanes
                   (CalculateFrustumPoints (NewRectLightWrapper ExampleRectLight)),
                 NewRectLightWrapper (ExampleRectLight\<lparr>IsVisible := False\<rparr>)],
              IlluminanceTotal := Finite (100 / (2 * pi * (13 / 100)))\<rparr>)
   \<and> PlaneDot
        (BoundingPlanes
           (CalculateBoundingPlanes
              (CalculateFrustumPoints (NewRectLightWrapper ExampleRectLight))) ! 1)
        (FVector 12 (25 / 2) 0) = 0
   \<and> CheckRectLights OpenWorld
     (ExampleManager\<lparr>Player := Some (FVector 12 (25 / 2) 0),
        RectLights :=
          [NewRectLightWrapper (ExampleRectLight\<lparr>GetLightPosition := FVector 0 0 1000\<rparr>),
           NewRectLightWrapper ExampleRectLight,
           NewRectLightWrapper (ExampleRectLight\<lparr>IsVisible := False\<rparr>)]\<rparr>)
     = Inr (ExampleManager\<lparr>Player := Some (FVector 12 (25 / 2) 0),
              RectLights :=
                [NewRectLightWrapper (ExampleRectLight\<lparr>GetLightPosition := FVector 0 0 1000\<rparr>),
                 CalculateBoundingPlanes
                   (CalculateFrustumPoints (NewRectLightWrapper ExampleRectLight)),
                 NewRectLightWrapper (ExampleRectLight\<lparr>IsVisible := False\<rparr>)]\<rparr>)"
proof -
  let ?A = "NewRectLightWrapper (ExampleRectLight\<lparr>GetLightPosition := FVector 0 0 1000\<rparr>)"
  let ?B = "NewRectLightWrapper ExampleRectLight"
  let ?B' = "CalculateBoundingPlanes (CalculateFrustumPoints ?B)"
  let ?C = "NewRectLightWrapper (ExampleRectLight\<lparr>IsVisible := False\<rparr>)"
  let ?m = "\<lambda>y. ExampleManager\<lparr>Player := Some (FVector 12 y 0), RectLights := [?A, ?B, ?C]\<rparr>"
  have player: "Player (?m y) = Some (FVector 12 y 0)" for y
    by (simp add: ExampleManager_def)
  have catalog: "RectLights (?m y) = [?A] @ ?B # [?C]" for y
    by (simp add: ExampleManager_def)
  have reached: "\<forall>x\<in>set [?A]. IsVisible (RectLight x)"
    by (simp add: NewRectLightWrapper_def ExampleRectLight_def)
  have before:
    "CheckRectLights_loop OpenWorld (ForgivenessBuffer (?m 5)) (FVector 12 5 0) [?A]
      (IlluminanceTotal (?m 5)) = Inr ([?A], Finite 0)"
    "CheckRectLights_loop OpenWorld (ForgivenessBuffer (?m (25 / 2))) (FVector 12 (25 / 2) 0) [?A]
      (IlluminanceTotal (?m (25 / 2))) = Inr ([?A], Finite 0)"
    by (simp_all add: ExampleManager_def RectLightStep_def Let_def
        NewRectLightWrapper_def ExampleRectLight_def vec_defs)
  have visible: "IsVisible (RectLight ?B)"
    by (simp add: NewRectLightWrapper_def ExampleRectLight_def)
  have near:
    "DistSquared (GetLightPosition (RectLight ?B)) (FVector 12 5 0)
      \<le> AttenuationRadius (RectLight ?B) * AttenuationRadius (RectLight ?B)
          + ForgivenessBuffer (?m 5)"
    "DistSquared (GetLightPosition (RectLight ?B)) (FVector 12 (25 / 2) 0)
      \<le> AttenuationRadius (RectLight ?B) * AttenuationRadius (RectLight ?B)
          + ForgivenessBuffer (?m (25 / 2))"
    by (simp_all add: ExampleManager_def NewRectLightWrapper_def ExampleRectLight_def vec_defs)
  have ray: "OpenWorld (GetLightPosition (RectLight ?B)) (FVector 12 y 0) ECC_GameTraceChannel5
      = None" for y
    by (simp add: OpenWorld_def)
  have sizes: "8 \<le> length (FrustumPoints ?B)" "4 \<le> length (BoundingPlanes ?B)"
    by (simp_all add: NewRectLightWrapper_def)
  have inside: "True \<longleftrightarrow>
      0 < PlaneDot (BoundingPlanes ?B' ! 0) (FVector 12 5 0)
      \<and> 0 < PlaneDot (BoundingPlanes ?B' ! 1) (FVector 12 5 0)
      \<and> 0 < PlaneDot (BoundingPlanes ?B' ! 2) (FVector 12 5 0)
      \<and> 0 < PlaneDot (BoundingPlanes ?B' ! 3) (FVector 12 5 0)"
    unfolding ExamplePlaneDots by simp
  have on_plane: "False \<longleftrightarrow>
      0 < PlaneDot (BoundingPlanes ?B' ! 0) (FVector 12 (25 / 2) 0)
      \<and> 0 < PlaneDot (BoundingPlanes ?B' ! 1) (FVector 12 (25 / 2) 0)
      \<and> 0 < PlaneDot (BoundingPlanes ?B' ! 2) (FVector 12 (25 / 2) 0)
      \<and> 0 < PlaneDot (BoundingPlanes ?B' ! 3) (FVector 12 (25 / 2) 0)"
    unfolding ExamplePlaneDots by simp
  have after: "CheckRectLights_loop OpenWorld fb P [?C] illum = Inr ([?C], illum)" for fb P illum
    by (simp add: RectLightStep_def NewRectLightWrapper_def ExampleRectLight_def)
  have amount: "FloatAdd (Finite 0)
      (FloatDivide (Intensity (RectLight ?B))
         (Finite (2 * pi * (sqrt (DistSquared (GetLightPosition (RectLight ?B)) (FVector 12 5 0))
                              * (1 / 100)))))
      = Finite (100 / (2 * pi * (13 / 100)))"
    by (simp add: NewRectLightWrapper_def ExampleRectLight_def vec_defs sqrt_169)
  have first: "CheckRectLights OpenWorld (?m 5)
      = Inr ((?m 5)\<lparr>RectLights := [?A, ?B', ?C],
               IlluminanceTotal := Finite (100 / (2 * pi * (13 / 100)))\<rparr>)"
    using rect_light_included_iff_inside_planes
      [where w = OpenWorld and m = "?m 5" and P = "FVector 12 5 0" and pre = "[?A]"
         and rw = ?B and post = "[?C]" and pre' = "[?A]" and illum = "Finite 0"
         and rw' = ?B' and inside = True,
        OF player catalog reached before(1) visible near(1) ray sizes refl inside]
    by (simp only: after amount if_True sum.case prod.case append.simps simp_thms)
  have second: "CheckRectLights OpenWorld (?m (25 / 2))
      = Inr ((?m (25 / 2))\<lparr>RectLights := [?A, ?B', ?C], IlluminanceTotal := Finite 0\<rparr>)"
    using rect_light_included_iff_inside_planes
      [where w = OpenWorld and m = "?m (25 / 2)" and P = "FVector 12 (25 / 2) 0"
         and pre = "[?A]" and rw = ?B and post = "[?C]" and pre' = "[?A]"
         and illum = "Finite 0" and rw' = ?B' and inside = False,
        OF player catalog reached before(2) visible near(2) ray sizes refl on_plane]
    by (simp only: after if_False sum.case prod.case append.simps simp_thms)
  have third: "PlaneDot (BoundingPlanes ?B' ! 1) (FVector 12 (25 / 2) 0) = 0"
    unfolding ExamplePlaneDots by simp
  from first second third show ?thesis
    by (simp add: ExampleManager_def)
qed

section \<open>The directional light\<close>

text \<open>
  C6, as stated: whenever the ray from 5000 units against the light's direction to
  the sampling point is unblocked, the total grows by the light's intensity.
  \<open>CheckDirectionalLight\<close> does not look at the sampling point: it probes the ray
  that ends at the player's location.  With the player at the origin over no floor and
  an obstacle 4950 units above, the ray to the sampling point starts below the
  obstacle and is unblocked, the ray to the player is blocked, and nothing is added.
\<close>

theorem directional_light_probes_from_player:
  "DetectionPoint ObstacleWorld (FVector 0 0 0) = Some (FVector 0 0 (- (93980003 / 1000000)))
   \<and> ObstacleWorld
        (FVector 0 0 (- (93980003 / 1000000))
           - Scaled (GetForwardVector ExampleDirectionalLight) 5000)
        (FVector 0 0 (- (93980003 / 1000000))) ECC_Visibility = None
   \<and> CheckDirectionalLight ObstacleWorld
        (ExampleManager\<lparr>MainDirectionalLight := Some ExampleDirectionalLight\<rparr>)
       = Inr (ExampleManager\<lparr>MainDirectionalLight := Some ExampleDirectionalLight\<rparr>)"
  by (simp add: DetectionPoint_def ObstacleWorld_def CheckDirectionalLight_def
        ExampleManager_def ExampleDirectionalLight_def vec_defs DownVector_def)

text \<open>
  C6, amended.  \<open>CheckDirectionalLight\<close> casts its probe ray, from 5000 units against
  the light's direction to the player's location, for a main directional light that
  is present and visible.  Whenever that ray is unblocked, the total grows by exactly
  the light's intensity; with the intensity doubled it grows by twice as much.
\<close>

theorem directional_light_adds_intensity:
  assumes "MainDirectionalLight m = Some l" and "IsVisible l" and "Player m = Some P"
    and "w (P - Scaled (GetForwardVector l) 5000) P ECC_Visibility = None"
    and "IlluminanceTotal m = Finite t"
  shows "CheckDirectionalLight w m = Inr (m\<lparr>IlluminanceTotal := Finite (t + Intensity l)\<rparr>)
    \<and> CheckDirectionalLight w
          (m\<lparr>MainDirectionalLight := Some (l\<lparr>Intensity := 2 * Intensity l\<rparr>)\<rparr>)
        = Inr (m\<lparr>MainDirectionalLight := Some (l\<lparr>Intensity := 2 * Intensity l\<rparr>),
               IlluminanceTotal := Finite (t + 2 * Intensity l)\<rparr>)"
  using assms by (simp add: CheckDirectionalLight_def Let_def)

theorem directional_light_adds_intensity_witness:
  "CheckDirectionalLight OpenWorld
     (ExampleManager\<lparr>MainDirectionalLight := Some ExampleDirectionalLight\<rparr>)
     = Inr (ExampleManager\<lparr>MainDirectionalLight := Some ExampleDirectionalLight,
              IlluminanceTotal := Finite 3\<rparr>)
   \<and> CheckDirectionalLight OpenWorld
        (ExampleManager\<lparr>MainDirectionalLight := Some (ExampleDirectionalLight\<lparr>Intensity := 6\<rparr>)\<rparr>)
     = Inr (ExampleManager\<lparr>MainDirectionalLight := Some (ExampleDirectionalLight\<lparr>Intensity := 6\<rparr>),
            IlluminanceTotal := Finite 6\<rparr>)"
  using directional_light_adds_intensity
    [of "ExampleManager\<lparr>MainDirectionalLight := Some ExampleDirectionalLight\<rparr>"
        ExampleDirectionalLight "FVector 0 0 0" OpenWorld 0]
  by (simp add: ExampleManager_def ExampleDirectionalLight_def OpenWorld_def)

section \<open>The tick driver\<close>

text \<open>
  C7.  On a frame with delta-time \<open>dt\<close> the timer is decremented by \<open>dt\<close>.  If the
  decremented timer is at most 0, \<open>Tick\<close> runs one evaluation on the state with the
  decremented timer and then resets the timer to \<open>1 / UpdateFrequency\<close>; otherwise it
  runs none and only the timer changes.  A frame therefore runs at most one
  evaluation, whatever the update frequency.
\<close>

theorem Tick_evaluates_iff_timer_run_out:
  "(FloatLeZero (FloatAdd (UpdateTimer m) (Finite (- dt))) \<longrightarrow>
      Tick w dt m =
        (case UpdateDetection w (m\<lparr>UpdateTimer := FloatAdd (UpdateTimer m) (Finite (- dt))\<rparr>) of
           Inl f \<Rightarrow> Inl f
         | Inr m' \<Rightarrow> Inr (m'\<lparr>UpdateTimer := FloatDivide 1 (UpdateFrequency m)\<rparr>)))
   \<and> (\<not> FloatLeZero (FloatAdd (UpdateTimer m) (Finite (- dt))) \<longrightarrow>
      Tick w dt m = Inr (m\<lparr>UpdateTimer := FloatAdd (UpdateTimer m) (Finite (- dt))\<rparr>))
   \<and> (Tick w dt m = Inr m' \<longrightarrow>
        Evaluations m' =
          (if FloatLeZero (FloatAdd (UpdateTimer m) (Finite (- dt)))
           then Suc (Evaluations m) else Evaluations m)
        \<and> UpdateTimer m' =
          (if FloatLeZero (FloatAdd (UpdateTimer m) (Finite (- dt)))
           then FloatDivide 1 (UpdateFrequency m)
           else FloatAdd (UpdateTimer m) (Finite (- dt)))
        \<and> Evaluations m' \<le> Suc (Evaluations m))"
  by (auto simp add: Tick_def Let_def dest!: UpdateDetection_Inr split: sum.splits)

theorem Tick_evaluates_iff_timer_run_out_witness:
  "Tick OpenWorld (1 / 60) ExampleManager
     = Inr (ExampleManager\<lparr>UpdateTimer := Finite (1 / 50), Evaluations := 1\<rparr>)
   \<and> Tick OpenWorld (1 / 60) (ExampleManager\<lparr>UpdateTimer := Finite (1 / 50)\<rparr>)
     = Inr (ExampleManager\<lparr>UpdateTimer := Finite (1 / 300)\<rparr>)"
  using Tick_evaluates_iff_timer_run_out [of ExampleManager "1 / 60" OpenWorld]
    Tick_evaluates_iff_timer_run_out
      [of "ExampleManager\<lparr>UpdateTimer := Finite (1 / 50)\<rparr>" "1 / 60" OpenWorld]
  by (simp add: ExampleManager_def UpdateDetection_def ExampleDetectionPoint
        CheckSpotLights_def CheckPointLights_def)

section \<open>Initialisation and the update frequency\<close>

lemma BeginPlay_loop_keeps:
  "UpdateFrequency (BeginPlay_loop Actors m) = UpdateFrequency m
   \<and> Player (BeginPlay_loop Actors m) = Player m
   \<and> Evaluations (BeginPlay_loop Actors m) = Evaluations m
   \<and> IlluminanceTotal (BeginPlay_loop Actors m) = IlluminanceTotal m"
  by (induction Actors arbitrary: m) (auto split: option.splits)

lemma BeginPlay_fields:
  "UpdateTimer (BeginPlay pc Actors m) = FloatDivide 1 (UpdateFrequency m)"
  "UpdateFrequency (BeginPlay pc Actors m) = UpdateFrequency m"
  "Player (BeginPlay pc Actors m) = pc"
  "Evaluations (BeginPlay pc Actors m) = Evaluations m"
  by (simp_all add: BeginPlay_def Let_def BeginPlay_loop_keeps)

lemma negative_frequency_due:
  assumes "(\<exists>f. freq = Finite f \<and> f < 0) \<or> freq = NegativeZero \<or> freq = MinusInfinity"
    and "0 \<le> dt"
  shows "FloatLeZero (FloatAdd (FloatDivide 1 freq) (Finite (- dt)))"
proof -
  have "FloatLeZero (FloatAdd (FloatDivide 1 (Finite f)) (Finite (- dt)))" if "f < 0" for f
  proof -
    from that have "1 / f \<le> 0" by (simp add: divide_le_0_iff)
    with assms(2) have "1 / f \<le> dt" by linarith
    with that show ?thesis by simp
  qed
  moreover have "FloatLeZero (FloatAdd (FloatDivide 1 NegativeZero) (Finite (- dt)))"
    by simp
  moreover from assms(2) have "FloatLeZero (FloatAdd (FloatDivide 1 MinusInfinity) (Finite (- dt)))"
    by simp
  ultimately show ?thesis using assms(1) by auto
qed

text \<open>
  C8, as stated: with an update frequency of 0 or less, initialisation reports a
  fault and the detector does not run.  With an update frequency of -1, \<open>BeginPlay\<close>
  completes with a timer of -1, and the first frame runs an evaluation.
\<close>

theorem BeginPlay_negative_frequency_runs:
  "BeginPlay (Some (FVector 0 0 0)) [] (ExampleManager\<lparr>UpdateFrequency := Finite (- 1)\<rparr>)
     = ExampleManager\<lparr>UpdateFrequency := Finite (- 1), UpdateTimer := Finite (- 1)\<rparr>
   \<and> Tick OpenWorld (1 / 60)
        (BeginPlay (Some (FVector 0 0 0)) [] (ExampleManager\<lparr>UpdateFrequency := Finite (- 1)\<rparr>))
     = Inr (ExampleManager\<lparr>UpdateFrequency := Finite (- 1), UpdateTimer := Finite (- 1),
              Evaluations := 1\<rparr>)"
  by (simp add: BeginPlay_def Tick_def ExampleManager_def UpdateDetection_def
        ExampleDetectionPoint CheckSpotLights_def CheckPointLights_def)

text \<open>
  C8, amended.  Initialisation does not look at the update frequency and has no
  fault to report: \<open>BeginPlay\<close> always completes, with the timer set to the float
  quotient \<open>1 / UpdateFrequency\<close>.  With an update frequency that is negative,
  finite or infinite, or is the negative zero, the next frame, for any delta-time
  that is not negative, is one call of \<open>UpdateDetection\<close> followed by the reset of
  the timer to the same quotient: it runs an evaluation whenever the player and a
  detection point can be read.  With an update frequency that is the positive zero
  the timer is plus infinity and the next frame changes nothing and runs no
  evaluation.
\<close>

theorem BeginPlay_sets_timer_unchecked:
  "UpdateTimer (BeginPlay pc Actors m) = FloatDivide 1 (UpdateFrequency m)
   \<and> UpdateFrequency (BeginPlay pc Actors m) = UpdateFrequency m
   \<and> Player (BeginPlay pc Actors m) = pc
   \<and> Evaluations (BeginPlay pc Actors m) = Evaluations m
   \<and> (((\<exists>f. UpdateFrequency m = Finite f \<and> f < 0) \<or> UpdateFrequency m = NegativeZero
         \<or> UpdateFrequency m = MinusInfinity) \<and> 0 \<le> dt \<longrightarrow>
        Tick w dt (BeginPlay pc Actors m) =
          (case UpdateDetection w
                  ((BeginPlay pc Actors m)
                     \<lparr>UpdateTimer :=
                        FloatAdd (FloatDivide 1 (UpdateFrequency m)) (Finite (- dt))\<rparr>) of
             Inl f \<Rightarrow> Inl f
           | Inr m' \<Rightarrow> Inr (m'\<lparr>UpdateTimer := FloatDivide 1 (UpdateFrequency m)\<rparr>))
        \<and> (Tick w dt (BeginPlay pc Actors m) = Inr m' \<longrightarrow>
             Evaluations m' = Suc (Evaluations m)
             \<and> UpdateTimer m' = FloatDivide 1 (UpdateFrequency m)
             \<and> UpdateFrequency m' = UpdateFrequency m)
        \<and> (pc = Some p \<and> DetectionPoint w p = Some S \<longrightarrow>
             (\<exists>m''. Tick w dt (BeginPlay pc Actors m) = Inr m''
                     \<and> Evaluations m'' = Suc (Evaluations m))))
   \<and> (UpdateFrequency m = Finite 0 \<longrightarrow>
        UpdateTimer (BeginPlay pc Actors m) = PlusInfinity
        \<and> Tick w dt (BeginPlay pc Actors m) = Inr (BeginPlay pc Actors m))"
proof -
  let ?b = "BeginPlay pc Actors m"
  note fields = BeginPlay_fields
  have negative:
    "Tick w dt ?b =
          (case UpdateDetection w
                  (?b\<lparr>UpdateTimer :=
                        FloatAdd (FloatDivide 1 (UpdateFrequency m)) (Finite (- dt))\<rparr>) of
             Inl f \<Rightarrow> Inl f
           | Inr m' \<Rightarrow> Inr (m'\<lparr>UpdateTimer := FloatDivide 1 (UpdateFrequency m)\<rparr>))
        \<and> (Tick w dt ?b = Inr m' \<longrightarrow>
             Evaluations m' = Suc (Evaluations m)
             \<and> UpdateTimer m' = FloatDivide 1 (UpdateFrequency m)
             \<and> UpdateFrequency m' = UpdateFrequency m)
        \<and> (pc = Some p \<and> DetectionPoint w p = Some S \<longrightarrow>
             (\<exists>m''. Tick w dt ?b = Inr m'' \<and> Evaluations m'' = Suc (Evaluations m)))"
    if neg: "(\<exists>f. UpdateFrequency m = Finite f \<and> f < 0) \<or> UpdateFrequency m = NegativeZero
         \<or> UpdateFrequency m = MinusInfinity" and dt: "0 \<le> dt"
  proof -
    from negative_frequency_due [OF neg dt]
    have due: "FloatLeZero (FloatAdd (FloatDivide 1 (UpdateFrequency m)) (Finite (- dt)))" .
    have tick: "Tick w dt ?b =
          (case UpdateDetection w
                  (?b\<lparr>UpdateTimer :=
                        FloatAdd (FloatDivide 1 (UpdateFrequency m)) (Finite (- dt))\<rparr>) of
             Inl f \<Rightarrow> Inl f
           | Inr m' \<Rightarrow> Inr (m'\<lparr>UpdateTimer := FloatDivide 1 (UpdateFrequency m)\<rparr>))"
      using due by (auto simp add: Tick_def Let_def fields dest!: UpdateDetection_Inr
          split: sum.splits)
    have counted: "Evaluations m' = Suc (Evaluations m)
             \<and> UpdateTimer m' = FloatDivide 1 (UpdateFrequency m)
             \<and> UpdateFrequency m' = UpdateFrequency m" if "Tick w dt ?b = Inr m'"
      using that unfolding tick
      by (auto simp add: fields dest!: UpdateDetection_Inr split: sum.splits)
    have runs: "\<exists>m''. Tick w dt ?b = Inr m'' \<and> Evaluations m'' = Suc (Evaluations m)"
      if "pc = Some p \<and> DetectionPoint w p = Some S"
      unfolding tick using that
      by (simp add: UpdateDetection_runs [where p = p and S = S] fields)
    from tick counted runs show ?thesis by blast
  qed
  have zero: "UpdateTimer ?b = PlusInfinity \<and> Tick w dt ?b = Inr ?b"
    if "UpdateFrequency m = Finite 0"
    using that by (simp add: fields Tick_def)
  from fields negative zero show ?thesis by blast
qed

theorem BeginPlay_sets_timer_unchecked_witness:
  "Tick OpenWorld (1 / 60)
     (BeginPlay (Some (FVector 0 0 0))
        [\<lparr>Tags = [''Point Light''], Components = [PointLightComponent ExamplePointLight]\<rparr>]
        (ExampleManager\<lparr>UpdateFrequency := Finite (- 1)\<rparr>))
     = Inr (ExampleManager\<lparr>UpdateFrequency := Finite (- 1), PointLights := [ExamplePointLight],
              IlluminanceTotal := Finite 1, UpdateTimer := Finite (- 1), Evaluations := 1\<rparr>)
   \<and> Tick OpenWorld (1 / 60)
       (BeginPlay (Some (FVector 0 0 0)) [] (ExampleManager\<lparr>UpdateFrequency := NegativeZero\<rparr>))
     = Inr (ExampleManager\<lparr>UpdateFrequency := NegativeZero, UpdateTimer := MinusInfinity,
              Evaluations := 1\<rparr>)
   \<and> UpdateTimer (BeginPlay None [] (ExampleManager\<lparr>UpdateFrequency := Finite 0\<rparr>))
       = PlusInfinity
   \<and> Tick OpenWorld (1 / 60) (BeginPlay None [] (ExampleManager\<lparr>UpdateFrequency := Finite 0\<rparr>))
       = Inr (ExampleManager\<lparr>Player := None, UpdateFrequency := Finite 0,
                UpdateTimer := PlusInfinity\<rparr>)"
proof -
  let ?actors =
    "[\<lparr>Tags = [''Point Light''], Components = [PointLightComponent ExamplePointLight]\<rparr>]"
  let ?m1 = "ExampleManager\<lparr>UpdateFrequency := Finite (- 1)\<rparr>"
  let ?m2 = "ExampleManager\<lparr>UpdateFrequency := NegativeZero\<rparr>"
  let ?m3 = "ExampleManager\<lparr>UpdateFrequency := Finite 0\<rparr>"
  have b1: "BeginPlay (Some (FVector 0 0 0)) ?actors ?m1
      = ExampleManager\<lparr>UpdateFrequency := Finite (- 1), PointLights := [ExamplePointLight],
          UpdateTimer := Finite (- 1)\<rparr>"
    by (simp add: BeginPlay_def ExampleManager_def)
  have b2: "BeginPlay (Some (FVector 0 0 0)) [] ?m2
      = ExampleManager\<lparr>UpdateFrequency := NegativeZero, UpdateTimer := MinusInfinity\<rparr>"
    by (simp add: BeginPlay_def ExampleManager_def)
  have b3: "BeginPlay None [] ?m3
      = ExampleManager\<lparr>Player := None, UpdateFrequency := Finite 0,
          UpdateTimer := PlusInfinity\<rparr>"
    by (simp add: BeginPlay_def ExampleManager_def)
  have first: "Tick OpenWorld (1 / 60) (BeginPlay (Some (FVector 0 0 0)) ?actors ?m1)
      = Inr (ExampleManager\<lparr>UpdateFrequency := Finite (- 1), PointLights := [ExamplePointLight],
              IlluminanceTotal := Finite 1, UpdateTimer := Finite (- 1), Evaluations := 1\<rparr>)"
    using BeginPlay_sets_timer_unchecked
      [where pc = "Some (FVector 0 0 0)" and Actors = ?actors and m = ?m1 and dt = "1 / 60"
         and w = OpenWorld]
    unfolding b1
    by (simp add: ExampleManager_def UpdateDetection_def ExampleDetectionPoint
        CheckSpotLights_def CheckPointLights_def ExamplePointStep)
  have second: "Tick OpenWorld (1 / 60) (BeginPlay (Some (FVector 0 0 0)) [] ?m2)
      = Inr (ExampleManager\<lparr>UpdateFrequency := NegativeZero, UpdateTimer := MinusInfinity,
              Evaluations := 1\<rparr>)"
    using BeginPlay_sets_timer_unchecked
      [where pc = "Some (FVector 0 0 0)" and Actors = "[]" and m = ?m2 and dt = "1 / 60"
         and w = OpenWorld]
    unfolding b2
    by (simp add: ExampleManager_def UpdateDetection_def ExampleDetectionPoint
        CheckSpotLights_def CheckPointLights_def)
  have third: "UpdateTimer (BeginPlay None [] ?m3) = PlusInfinity
      \<and> Tick OpenWorld (1 / 60) (BeginPlay None [] ?m3)
        = Inr (ExampleManager\<lparr>Player := None, UpdateFrequency := Finite 0,
                UpdateTimer := PlusInfinity\<rparr>)"
    using BeginPlay_sets_timer_unchecked
      [where pc = None and Actors = "[]" and m = ?m3 and dt = "1 / 60" and w = OpenWorld]
    unfolding b3
    by (simp add: ExampleManager_def)
  from first second third show ?thesis by simp
qed

section \<open>A null subject handle\<close>

text \<open>
  C9, as stated: with a null subject handle the evaluation is skipped and the state,
  the total included, is left as it was, no fault escaping.  With no player and a
  total of 1, the evaluation does not return the state it was given: it stops at the
  dereference of the null handle, and so does the frame that runs it.
\<close>

theorem null_player_evaluation_faults:
  "UpdateDetection OpenWorld (ExampleManager\<lparr>Player := None, IlluminanceTotal := Finite 1\<rparr>)
     \<noteq> Inr (ExampleManager\<lparr>Player := None, IlluminanceTotal := Finite 1\<rparr>)
   \<and> Tick OpenWorld (1 / 60) (ExampleManager\<lparr>Player := None, IlluminanceTotal := Finite 1\<rparr>)
     = Inl NullPlayerDereference"
  by (simp add: UpdateDetection_def Tick_def Let_def ExampleManager_def)

text \<open>
  C9, amended.  The source has no guard for a missing subject.  With a null subject
  handle an evaluation is not skipped: it stops at the dereference of the handle, and
  a frame on which an evaluation is due stops with it.  A frame on which none is due
  changes the timer only, so the total keeps its value there.
\<close>

theorem null_player_dereferenced:
  "Player m = None \<Longrightarrow>
     UpdateDetection w m = Inl NullPlayerDereference
     \<and> Tick w dt m =
         (if FloatLeZero (FloatAdd (UpdateTimer m) (Finite (- dt))) then Inl NullPlayerDereference
          else Inr (m\<lparr>UpdateTimer := FloatAdd (UpdateTimer m) (Finite (- dt))\<rparr>))"
  by (simp add: UpdateDetection_def Tick_def Let_def)

theorem null_player_dereferenced_witness:
  "Player (ExampleManager\<lparr>Player := None\<rparr>) = None
   \<and> UpdateDetection OpenWorld (ExampleManager\<lparr>Player := None\<rparr>) = Inl NullPlayerDereference
   \<and> Tick OpenWorld (1 / 60) (ExampleManager\<lparr>Player := None\<rparr>) = Inl NullPlayerDereference
   \<and> Tick OpenWorld (1 / 60) (ExampleManager\<lparr>Player := None, UpdateTimer := Finite 1\<rparr>)
       = Inr (ExampleManager\<lparr>Player := None, UpdateTimer := Finite (59 / 60)\<rparr>)"
  using null_player_dereferenced [of "ExampleManager\<lparr>Player := None\<rparr>" OpenWorld "1 / 60"]
    null_player_dereferenced
      [of "ExampleManager\<lparr>Player := None, UpdateTimer := Finite 1\<rparr>" OpenWorld "1 / 60"]
  by (simp add: ExampleManager_def)

section \<open>The total after an evaluation\<close>

text \<open>
  C10.  From a total of 0 the point-light pass followed by the spot-light pass ends
  with a total of 0 or of 1, for every detection point, catalog, buffer and ray-cast
  outcome.  So after every evaluation \<open>UpdateDetection\<close> completes the total is 0 or
  1: it is 0 when no point light and no spot light is included, and 1 otherwise.  A
  point light is included when it is visible, has a positive intensity and is in
  range; a spot light when it is visible, within the cone height and the cone,
  unoccluded and of positive intensity.  An included light stores the constant 1:
  the pass that meets it ends with 1 whatever the total was, so nothing is
  accumulated.  The rect lights and the directional light play no part in an
  evaluation: with any other rect-light catalog and main directional light it gives
  the same state, those two fields apart.
\<close>

theorem evaluation_total_is_zero_or_one:
  "(CheckSpotLights_loop w fb S spots (CheckPointLights_loop fb S points (Finite 0)) = Finite 0
    \<or> CheckSpotLights_loop w fb S spots (CheckPointLights_loop fb S points (Finite 0)) = Finite 1)
   \<and> (UpdateDetection w m = Inr m' \<longrightarrow>
        (IlluminanceTotal m' = Finite 0 \<or> IlluminanceTotal m' = Finite 1)
        \<and> UpdateDetection w (m\<lparr>RectLights := rects, MainDirectionalLight := sun\<rparr>)
            = Inr (m'\<lparr>RectLights := rects, MainDirectionalLight := sun\<rparr>))
   \<and> (Player m = Some p \<and> DetectionPoint w p = Some D \<longrightarrow>
        UpdateDetection w m =
          Inr (m\<lparr>IlluminanceTotal :=
                   (if IncludedPointLights (ForgivenessBuffer m) D (PointLights m) = 0
                       \<and> IncludedSpotLights w (ForgivenessBuffer m) D (SpotLights m) = 0
                    then Finite 0 else Finite 1),
                 Evaluations := Suc (Evaluations m)\<rparr>))
   \<and> (PointLightStep fb P l = Return \<or> PointLightStep fb P l = Continue
        \<or> PointLightStep fb P l = Assign (Finite 1))
   \<and> (SpotLightStep w fb P s = Continue \<or> SpotLightStep w fb P s = Assign (Finite 1))
   \<and> (PointLightStep fb P l = Assign (Finite 1) \<longleftrightarrow>
        IsVisible l \<and> 0 < Intensity l
        \<and> DistSquared (GetLightPosition l) P \<le> AttenuationRadius l * AttenuationRadius l + fb)
   \<and> (SpotLightStep w fb P s = Assign (Finite 1) \<longleftrightarrow>
        IsVisible s \<and> \<not> BeyondConeHeight fb P s
        \<and> Acos (DotProduct (GetForwardVector s) (GetSafeNormal (P - GetLightPosition s)))
              * (180 / pi) \<le> OuterConeAngle s
        \<and> w (GetLightPosition s) P ECC_GameTraceChannel5 = None
        \<and> 0 < Intensity s)
   \<and> (PointLightStep fb P l = Assign (Finite 1) \<longrightarrow>
        CheckPointLights_loop fb P (l # ls) illum = Finite 1)
   \<and> (SpotLightStep w fb P s = Assign (Finite 1) \<longrightarrow>
        CheckSpotLights_loop w fb P (s # ss) illum = Finite 1)"
proof (intro conjI impI)
  show "CheckSpotLights_loop w fb S spots (CheckPointLights_loop fb S points (Finite 0)) = Finite 0
    \<or> CheckSpotLights_loop w fb S spots (CheckPointLights_loop fb S points (Finite 0)) = Finite 1"
    by (simp add: passes_binary)
next
  assume r: "UpdateDetection w m = Inr m'"
  from UpdateDetection_Inr [OF r] obtain D where
    "m' = m\<lparr>IlluminanceTotal :=
                CheckSpotLights_loop w (ForgivenessBuffer m) D (SpotLights m)
                  (CheckPointLights_loop (ForgivenessBuffer m) D (PointLights m) (Finite 0)),
              Evaluations := Suc (Evaluations m)\<rparr>"
    by blast
  then show "IlluminanceTotal m' = Finite 0 \<or> IlluminanceTotal m' = Finite 1"
    by (simp add: passes_binary)
next
  assume r: "UpdateDetection w m = Inr m'"
  from UpdateDetection_Inr [OF r]
  show "UpdateDetection w (m\<lparr>RectLights := rects, MainDirectionalLight := sun\<rparr>)
            = Inr (m'\<lparr>RectLights := rects, MainDirectionalLight := sun\<rparr>)"
    by (auto simp add: UpdateDetection_def CheckSpotLights_def CheckPointLights_def Let_def)
next
  assume "Player m = Some p \<and> DetectionPoint w p = Some D"
  then show "UpdateDetection w m =
          Inr (m\<lparr>IlluminanceTotal :=
                   (if IncludedPointLights (ForgivenessBuffer m) D (PointLights m) = 0
                       \<and> IncludedSpotLights w (ForgivenessBuffer m) D (SpotLights m) = 0
                    then Finite 0 else Finite 1),
                 Evaluations := Suc (Evaluations m)\<rparr>)"
    by (simp add: UpdateDetection_runs passes_binary)
next
  show "PointLightStep fb P l = Return \<or> PointLightStep fb P l = Continue
        \<or> PointLightStep fb P l = Assign (Finite 1)"
    by (rule PointLightStep_cases)
next
  show "SpotLightStep w fb P s = Continue \<or> SpotLightStep w fb P s = Assign (Finite 1)"
    by (rule SpotLightStep_cases)
next
  show "PointLightStep fb P l = Assign (Finite 1) \<longleftrightarrow>
        IsVisible l \<and> 0 < Intensity l
        \<and> DistSquared (GetLightPosition l) P \<le> AttenuationRadius l * AttenuationRadius l + fb"
    by (rule PointLightStep_included)
next
  show "SpotLightStep w fb P s = Assign (Finite 1) \<longleftrightarrow>
        IsVisible s \<and> \<not> BeyondConeHeight fb P s
        \<and> Acos (DotProduct (GetForwardVector s) (GetSafeNormal (P - GetLightPosition s)))
              * (180 / pi) \<le> OuterConeAngle s
        \<and> w (GetLightPosition s) P ECC_GameTraceChannel5 = None
        \<and> 0 < Intensity s"
    by (rule SpotLightStep_included)
next
  assume "PointLightStep fb P l = Assign (Finite 1)"
  then show "CheckPointLights_loop fb P (l # ls) illum = Finite 1"
    by (simp add: point_loop_counted)
next
  assume "SpotLightStep w fb P s = Assign (Finite 1)"
  then show "CheckSpotLights_loop w fb P (s # ss) illum = Finite 1"
    by (simp add: spot_loop_counted)
qed

theorem evaluation_total_is_zero_or_one_witness:
  "UpdateDetection OpenWorld
     (ExampleManager\<lparr>Player := Some (FVector 0 0 (93980003 / 1000000)),
        PointLights := [ExamplePointLight, ExamplePointLight],
        SpotLights := [ExampleSpotLight]\<rparr>)
     = Inr (ExampleManager\<lparr>Player := Some (FVector 0 0 (93980003 / 1000000)),
              PointLights := [ExamplePointLight, ExamplePointLight],
              SpotLights := [ExampleSpotLight],
              IlluminanceTotal := Finite 1, Evaluations := 1\<rparr>)
   \<and> UpdateDetection OpenWorld
       (ExampleManager\<lparr>Player := Some (FVector 0 0 (93980003 / 1000000)),
          PointLights := [ExamplePointLight, ExamplePointLight],
          SpotLights := [ExampleSpotLight],
          RectLights := [NewRectLightWrapper ExampleRectLight],
          MainDirectionalLight := Some ExampleDirectionalLight\<rparr>)
     = Inr (ExampleManager\<lparr>Player := Some (FVector 0 0 (93980003 / 1000000)),
              PointLights := [ExamplePointLight, ExamplePointLight],
              SpotLights := [ExampleSpotLight],
              IlluminanceTotal := Finite 1, Evaluations := 1,
              RectLights := [NewRectLightWrapper ExampleRectLight],
              MainDirectionalLight := Some ExampleDirectionalLight\<rparr>)
   \<and> UpdateDetection OpenWorld
       (ExampleManager\<lparr>Player := Some (FVector 0 0 (93980003 / 1000000)),
          SpotLights := [ExampleSpotLight]\<rparr>)
     = Inr (ExampleManager\<lparr>Player := Some (FVector 0 0 (93980003 / 1000000)),
              SpotLights := [ExampleSpotLight],
              IlluminanceTotal := Finite 1, Evaluations := 1\<rparr>)
   \<and> UpdateDetection OpenWorld
       (ExampleManager\<lparr>Player := Some (FVector 0 0 (93980003 / 1000000)),
          SpotLights := [ExampleSpotLight\<lparr>IsVisible := False\<rparr>]\<rparr>)
     = Inr (ExampleManager\<lparr>Player := Some (FVector 0 0 (93980003 / 1000000)),
              SpotLights := [ExampleSpotLight\<lparr>IsVisible := False\<rparr>],
              Evaluations := 1\<rparr>)
   \<and> CheckSpotLights_loop OpenWorld 0 (FVector 0 0 0) [ExampleSpotLight] (Finite 1) = Finite 1
   \<and> CheckPointLights_loop 0 (FVector 0 0 0) [ExamplePointLight] (Finite 1) = Finite 1"
proof -
  let ?P = "FVector 0 0 (93980003 / 1000000)"
  let ?m = "ExampleManager\<lparr>Player := Some ?P,
        PointLights := [ExamplePointLight, ExamplePointLight],
        SpotLights := [ExampleSpotLight]\<rparr>"
  let ?m' = "?m\<lparr>IlluminanceTotal := Finite 1, Evaluations := 1\<rparr>"
  let ?s = "\<lambda>l. ExampleManager\<lparr>Player := Some ?P, SpotLights := [l]\<rparr>"
  have player: "Player ?m = Some ?P" "Player (?s l) = Some ?P" for l
    by (simp_all add: ExampleManager_def)
  note point = ExampleDetectionPoint_raised
  have hidden: "SpotLightStep OpenWorld 0 (FVector 0 0 0) (ExampleSpotLight\<lparr>IsVisible := False\<rparr>)
      = Continue"
    by (simp add: SpotLightStep_def)
  have first: "UpdateDetection OpenWorld ?m = Inr ?m'"
    using evaluation_total_is_zero_or_one
      [where w = OpenWorld and m = ?m and p = ?P and D = "FVector 0 0 0"] player point
    by (simp add: ExampleManager_def ExamplePointStep_origin ExampleSpotStep)
  have second: "UpdateDetection OpenWorld
      (?m\<lparr>RectLights := [NewRectLightWrapper ExampleRectLight],
          MainDirectionalLight := Some ExampleDirectionalLight\<rparr>)
      = Inr (?m'\<lparr>RectLights := [NewRectLightWrapper ExampleRectLight],
               MainDirectionalLight := Some ExampleDirectionalLight\<rparr>)"
    using evaluation_total_is_zero_or_one
      [where w = OpenWorld and m = ?m and m' = ?m'
         and rects = "[NewRectLightWrapper ExampleRectLight]"
         and sun = "Some ExampleDirectionalLight"] first
    by simp
  have third: "UpdateDetection OpenWorld (?s ExampleSpotLight)
      = Inr ((?s ExampleSpotLight)\<lparr>IlluminanceTotal := Finite 1, Evaluations := 1\<rparr>)"
    using evaluation_total_is_zero_or_one
      [where w = OpenWorld and m = "?s ExampleSpotLight" and p = ?P and D = "FVector 0 0 0"]
      player point
    by (simp add: ExampleManager_def ExampleSpotStep)
  have fourth: "UpdateDetection OpenWorld (?s (ExampleSpotLight\<lparr>IsVisible := False\<rparr>))
      = Inr ((?s (ExampleSpotLight\<lparr>IsVisible := False\<rparr>))\<lparr>Evaluations := 1\<rparr>)"
    using evaluation_total_is_zero_or_one
      [where w = OpenWorld and m = "?s (ExampleSpotLight\<lparr>IsVisible := False\<rparr>)" and p = ?P
         and D = "FVector 0 0 0"]
      player point
    by (simp add: ExampleManager_def hidden)
  have fifth: "CheckSpotLights_loop OpenWorld 0 (FVector 0 0 0) [ExampleSpotLight] (Finite 1)
      = Finite 1"
    using evaluation_total_is_zero_or_one
      [where w = OpenWorld and fb = 0 and P = "FVector 0 0 0" and s = ExampleSpotLight
         and ss = "[]" and illum = "Finite 1"] ExampleSpotStep
    by simp
  have sixth: "CheckPointLights_loop 0 (FVector 0 0 0) [ExamplePointLight] (Finite 1) = Finite 1"
    using evaluation_total_is_zero_or_one
      [where fb = 0 and P = "FVector 0 0 0" and l = ExamplePointLight
         and ls = "[]" and illum = "Finite 1"] ExamplePointStep_origin(1)
    by simp
  from first second third fourth fifth sixth show ?thesis
    by (simp add: ExampleManager_def)
qed

end
